theory Spec2Isabelle
  imports Main "HOL-Library.Sublist"
begin

section \<open>Go standard library functions used by the image manager\<close>

text \<open>
  \<^verbatim>\<open>strings.IndexRune(s, c)\<close>: the index of the first occurrence of \<open>c\<close>, or \<open>-1\<close>.
\<close>

fun IndexRune :: "string \<Rightarrow> char \<Rightarrow> int" where
  "IndexRune [] c = -1"
| "IndexRune (x # xs) c =
     (if x = c then 0
      else (let i = IndexRune xs c in if i = -1 then -1 else i + 1))"

text \<open>\<^verbatim>\<open>strings.ContainsAny(s, chars)\<close>: some character of \<open>chars\<close> occurs in \<open>s\<close>.\<close>

definition ContainsAny :: "string \<Rightarrow> string \<Rightarrow> bool" where
  "ContainsAny s chars = (\<exists>c \<in> set s. c \<in> set chars)"

text \<open>\<^verbatim>\<open>strings.HasPrefix(s, p)\<close>.\<close>

definition HasPrefix :: "string \<Rightarrow> string \<Rightarrow> bool" where
  "HasPrefix s p = (take (length p) s = p)"

text \<open>
  \<^verbatim>\<open>path.Clean\<close> of the Go standard library, on the elements of the path: empty
  elements and \<open>.\<close> are dropped, \<open>..\<close> removes the element before it (at the start
  of a rooted path it is dropped, at the start of a relative path it stays), and the
  empty result is \<open>.\<close>.
\<close>

fun split_slash :: "string \<Rightarrow> string list" where
  "split_slash [] = [[]]"
| "split_slash (x # xs) =
     (if x = CHR ''/'' then [] # split_slash xs
      else (case split_slash xs of
              [] \<Rightarrow> [[x]]
            | y # ys \<Rightarrow> (x # y) # ys))"

definition clean_step :: "bool \<Rightarrow> string list \<Rightarrow> string \<Rightarrow> string list" where
  "clean_step rooted stack e =
     (if e = [] \<or> e = ''.'' then stack
      else if e = ''..'' then
        (case stack of
           [] \<Rightarrow> (if rooted then [] else [''..''])
         | s # rest \<Rightarrow>
             (if s \<noteq> ''..'' then rest
              else if rooted then stack else ''..'' # stack))
      else e # stack)"

fun join_slash :: "string list \<Rightarrow> string" where
  "join_slash [] = []"
| "join_slash [e] = e"
| "join_slash (e # es) = e @ ''/'' @ join_slash es"

definition path_Clean :: "string \<Rightarrow> string" where
  "path_Clean p =
     (if p = [] then ''.''
      else
        (let rooted = (hd p = CHR ''/'');
             out = (if rooted then ''/'' else [])
                   @ join_slash (rev (foldl (clean_step rooted) [] (split_slash p)))
         in if out = [] then ''.'' else out))"

text \<open>
  \<^verbatim>\<open>path.Join(elem...)\<close>: the non-empty elements joined by a slash, then cleaned; the
  empty string when every element is empty.
\<close>

fun join_buf :: "string \<Rightarrow> string list \<Rightarrow> string" where
  "join_buf buf [] = buf"
| "join_buf buf (e # es) =
     (if buf \<noteq> [] \<or> e \<noteq> []
      then join_buf ((if buf \<noteq> [] then buf @ ''/'' else buf) @ e) es
      else join_buf buf es)"

definition path_Join :: "string list \<Rightarrow> string" where
  "path_Join elem =
     (if sum_list (map length elem) = 0 then []
      else path_Clean (join_buf [] elem))"

section \<open>The image manager\<close>

text \<open>
  The configuration fields of \<^verbatim>\<open>ImageManager\<close>: the default registry, the default
  namespace and the registry mirrors.
\<close>

record ImageManager =
  DefaultRegistry :: string
  DefaultNamespace :: string
  RegistryMirrors :: "string list"

subsection \<open>LookupImageReferences\<close>

text \<open>
  The domain field of a reference: what stands before the first slash, when that
  contains a dot or a colon.
\<close>

definition extract_domain :: "string \<Rightarrow> string \<times> string" where
  "extract_domain ref =
     (let idx = IndexRune ref (CHR ''/'')
      in if idx \<noteq> -1 \<and> ContainsAny (take (nat idx) ref) ''.:''
         then (take (nat idx) ref, drop (nat idx + 1) ref)
         else ([], ref))"

definition LookupImageReferences :: "ImageManager \<Rightarrow> string \<Rightarrow> string list" where
  "LookupImageReferences mgr ref =
     (let (registry, remainder) = extract_domain ref;
          fullRefs = [];
          (fullRefs, registry) =
            (if registry = []
             then (foldl (\<lambda>acc reg. acc @ [path_Join [reg, ref]]) fullRefs (RegistryMirrors mgr),
                   DefaultRegistry mgr)
             else (fullRefs, registry));
          remainder =
            (if registry = DefaultRegistry mgr \<and> \<not> ContainsAny remainder ''/''
             then DefaultNamespace mgr @ ''/'' @ remainder
             else remainder)
      in fullRefs @ [registry @ ''/'' @ remainder])"

section \<open>Data model\<close>

text \<open>\<^verbatim>\<open>digest.Digest\<close> is a string type; its \<^verbatim>\<open>String()\<close> is the string itself.\<close>

type_synonym digest = string

text \<open>
  The error values the manager returns or inspects. \<^verbatim>\<open>errtypes.ErrNotfound\<close> and
  \<^verbatim>\<open>errtypes.ErrInvalidParam\<close> are the typed errors of \<^verbatim>\<open>pkg/errtypes\<close>,
  \<open>ErrorsNew\<close> is an untyped error (\<^verbatim>\<open>errors.New\<close>, \<^verbatim>\<open>fmt.Errorf\<close>, and whatever a
  collaborator reports), \<open>Wrap\<close> is \<^verbatim>\<open>pkgerrors.Wrap\<close>/\<^verbatim>\<open>Wrapf\<close>, and
  \<open>errCtrdImageInfoNotExist\<close> is the store's cache-miss error.
\<close>

datatype error =
    ErrNotfound
  | ErrInvalidParam
  | errCtrdImageInfoNotExist
  | ErrorsNew string
  | Wrap error string

fun Cause :: "error \<Rightarrow> error" where
  "Cause (Wrap e m) = Cause e"
| "Cause e = e"

text \<open>
  Modelled from the spec: \<^verbatim>\<open>errtypes.IsNotfound\<close> (\<^verbatim>\<open>pkg/errtypes\<close> is not among the
  sources): an error is a not-found error when its cause is \<open>NotFound\<close>.
\<close>

definition IsNotfound :: "error \<Rightarrow> bool" where
  "IsNotfound err = (Cause err = ErrNotfound)"

definition IsInvalidParam :: "error \<Rightarrow> bool" where
  "IsInvalidParam err = (Cause err = ErrInvalidParam)"

text \<open>\<^verbatim>\<open>ocispec.History\<close>; \<open>h_Created\<close> is the time stamp in nanoseconds.\<close>

record History =
  h_Created :: int
  h_CreatedBy :: string
  h_Author :: string
  h_Comment :: string
  h_EmptyLayer :: bool

text \<open>
  \<^verbatim>\<open>ocispec.Image\<close>: the creation time as an instant in nanoseconds, the history, and
  the fields that are only copied into the image info.
\<close>

record OciImage =
  oci_Created :: int
  oci_Architecture :: string
  oci_OS :: string
  oci_Config :: string
  oci_RootFSType :: string
  oci_DiffIDs :: "digest list"
  oci_History :: "History list"

record CtrdImageInfo =
  ci_ID :: digest
  ci_Size :: int
  ci_OCISpec :: OciImage

record ImageInfo =
  ii_Architecture :: string
  ii_Config :: string
  ii_CreatedAt :: string
  ii_ID :: string
  ii_Os :: string
  ii_RepoDigests :: "string list"
  ii_RepoTags :: "string list"
  ii_RootFSType :: string
  ii_RootFSLayers :: "string list"
  ii_Size :: int

record HistoryResultItem =
  Created :: int
  CreatedBy :: string
  Author :: string
  Comment :: string
  EmptyLayer :: bool
  ID :: string
  Size :: int

text \<open>A layer descriptor of the manifest.\<close>

record Descriptor =
  desc_Digest :: digest
  desc_Size :: int

text \<open>
  A \<^verbatim>\<open>containerd.Image\<close> handle, as the manager observes it: the result of each call
  the manager makes on it. \<open>img_Info\<close> is \<^verbatim>\<open>ContentStore().Info(ctx, d)\<close> with the
  size it reports.
\<close>

record Image =
  img_Name :: string
  img_Target :: digest
  img_Config :: "error + digest"
  img_OciImage :: "error + OciImage"
  img_Manifest :: "error + Descriptor list"
  img_RootFS :: "error + digest list"
  img_Info :: "digest \<Rightarrow> error + int"

text \<open>
  The collaborators of the manager that are not part of its source file, as
  operations on a reference type \<open>'r\<close> (\<^verbatim>\<open>reference.Named\<close>), a filter type \<open>'f\<close>
  (\<^verbatim>\<open>filters.Args\<close>) and a world \<open>'w\<close> (the local store, the containerd client and
  the event service together): the reference package, the helpers of the manager's
  package, the local store, the client, the filters and the time layout.
  A mutating operation returns its error and the world after it.
\<close>

record ('r, 'f, 'w) deps =
  Parse :: "string \<Rightarrow> error + 'r"
  ref_String :: "'r \<Rightarrow> string"
  ref_Name :: "'r \<Rightarrow> string"
  IsNamedOnly :: "'r \<Rightarrow> bool"
  IsNameTagged :: "'r \<Rightarrow> bool"
  is_Tagged :: "'r \<Rightarrow> bool"
  is_Digested :: "'r \<Rightarrow> bool"
  is_CanonicalDigested :: "'r \<Rightarrow> bool"
  TrimTagForDigest :: "'r \<Rightarrow> 'r"
  WithDefaultTagIfMissing :: "'r \<Rightarrow> 'r"
  WithDigest :: "'r \<Rightarrow> digest \<Rightarrow> 'r"
  addDefaultRegistryIfMissing :: "string \<Rightarrow> string \<Rightarrow> string \<Rightarrow> string"
  Search :: "'w \<Rightarrow> 'r \<Rightarrow> error + digest \<times> 'r"
  GetReferences :: "'w \<Rightarrow> digest \<Rightarrow> 'r list"
  GetPrimaryReferences :: "'w \<Rightarrow> digest \<Rightarrow> 'r list"
  GetPrimaryReference :: "'w \<Rightarrow> 'r \<Rightarrow> error + 'r"
  AddReference :: "'w \<Rightarrow> digest \<Rightarrow> 'r \<Rightarrow> 'r \<Rightarrow> error option \<times> 'w"
  RemoveReference :: "'w \<Rightarrow> digest \<Rightarrow> 'r \<Rightarrow> error option \<times> 'w"
  ListCtrdImageInfo :: "'w \<Rightarrow> CtrdImageInfo list"
  GetCtrdImageInfo :: "'w \<Rightarrow> digest \<Rightarrow> error + CtrdImageInfo"
  ClearCtrdImageInfo :: "'w \<Rightarrow> digest \<Rightarrow> 'w"
  client_GetImage :: "'w \<Rightarrow> string \<Rightarrow> error + Image"
  client_RemoveImage :: "'w \<Rightarrow> string \<Rightarrow> error option \<times> 'w"
  client_CreateImageReference :: "'w \<Rightarrow> string \<Rightarrow> digest \<Rightarrow> error option \<times> 'w"
  LogImageEvent :: "'w \<Rightarrow> string \<Rightarrow> string \<Rightarrow> string \<Rightarrow> 'w"
  filter_Validate :: "'f \<Rightarrow> (string \<Rightarrow> bool) \<Rightarrow> error option"
  filter_Get :: "'f \<Rightarrow> string \<Rightarrow> string list"
  FamiliarMatch :: "string \<Rightarrow> string \<Rightarrow> error + bool"
  time_Format :: "int \<Rightarrow> string"
  time_Parse :: "string \<Rightarrow> error + int"

text \<open>
  Modelled from the spec: \<^verbatim>\<open>uniqueLocatorReference\<close> (a helper of the manager's
  package that is not among the sources): the references do not span more than one
  distinct locator.
\<close>

definition uniqueLocatorReference :: "('r, 'f, 'w) deps \<Rightarrow> 'r list \<Rightarrow> bool" where
  "uniqueLocatorReference d refs = (length (remdups (map (ref_Name d) refs)) \<le> 1)"

subsection \<open>CheckReference and ListReferences\<close>

definition CheckReference ::
  "ImageManager \<Rightarrow> ('r, 'f, 'w) deps \<Rightarrow> 'w \<Rightarrow> string \<Rightarrow> error + digest \<times> 'r \<times> 'r" where
  "CheckReference mgr d w idOrRef =
     (case Parse d idOrRef of
        Inl err \<Rightarrow> Inl err
      | Inr namedRef \<Rightarrow>
          (case (case Search d w namedRef of
                   Inr found \<Rightarrow> Inr found
                 | Inl err \<Rightarrow>
                     (if \<not> IsNotfound err then Inl err
                      else
                        (let newIDOrRef = addDefaultRegistryIfMissing d idOrRef
                               (DefaultRegistry mgr) (DefaultNamespace mgr)
                         in if newIDOrRef = idOrRef then Inl err
                            else (case Parse d newIDOrRef of
                                    Inl err \<Rightarrow> Inl err
                                  | Inr namedRef \<Rightarrow> Search d w namedRef)))) of
             Inl err \<Rightarrow> Inl err
           | Inr (actualID, actualRef) \<Rightarrow>
               (if IsNamedOnly d actualRef \<or> HasPrefix actualID (ref_String d actualRef)
                then
                  (let refs = GetPrimaryReferences d w actualID
                   in if length refs = 0 then Inl ErrNotfound
                      else Inr (actualID, actualRef, refs ! 0))
                else
                  (case GetPrimaryReference d w actualRef of
                     Inl err \<Rightarrow> Inl err
                   | Inr primaryRef \<Rightarrow> Inr (actualID, actualRef, primaryRef)))))"

definition ListReferences ::
  "('r, 'f, 'w) deps \<Rightarrow> 'w \<Rightarrow> digest \<Rightarrow> error + 'r list" where
  "ListReferences d w imageID = Inr (GetPrimaryReferences d w imageID)"

subsection \<open>RemoveImage\<close>

text \<open>
  The calls of \<^verbatim>\<open>RemoveImage\<close> that have an effect outside the manager, in the order
  they are made: the trace of an invocation.
\<close>

datatype 'r call =
    CallClientRemoveImage string
  | CallRemoveReference digest 'r
  | CallLogImageEvent string string string
  | CallClearCtrdImageInfo digest

text \<open>
  The loop over the primary references: the remote removal, then the local one,
  returning at the first error.
\<close>

fun remove_primary_references ::
  "('r, 'f, 'w) deps \<Rightarrow> digest \<Rightarrow> 'r list \<Rightarrow> 'w \<Rightarrow> error option \<times> 'w \<times> 'r call list" where
  "remove_primary_references d imgid [] w = (None, w, [])"
| "remove_primary_references d imgid (ref # refs) w =
     (case client_RemoveImage d w (ref_String d ref) of
        (Some err, w1) \<Rightarrow> (Some err, w1, [CallClientRemoveImage (ref_String d ref)])
      | (None, w1) \<Rightarrow>
          (case RemoveReference d w1 imgid ref of
             (Some err, w2) \<Rightarrow>
               (Some err, w2,
                [CallClientRemoveImage (ref_String d ref), CallRemoveReference imgid ref])
           | (None, w2) \<Rightarrow>
               (case remove_primary_references d imgid refs w2 of
                  (res, w3, calls) \<Rightarrow>
                    (res, w3,
                     CallClientRemoveImage (ref_String d ref)
                     # CallRemoveReference imgid ref # calls))))"

text \<open>The body of \<^verbatim>\<open>RemoveImage\<close> after the reference is resolved.\<close>

definition RemoveImage_body ::
  "('r, 'f, 'w) deps \<Rightarrow> 'w \<Rightarrow> string \<Rightarrow> bool \<Rightarrow> digest \<Rightarrow> 'r \<Rightarrow> 'r
     \<Rightarrow> error option \<times> 'w \<times> 'r call list" where
  "RemoveImage_body d w idOrRef force imgid namedRef primaryRef =
     (if IsNamedOnly d namedRef \<or> HasPrefix imgid (ref_String d namedRef)
      then
        (if \<not> force \<and> \<not> uniqueLocatorReference d (GetReferences d w imgid)
         then (Some (ErrorsNew (''Unable to remove the image '' @ [CHR 0x22] @ idOrRef
                 @ [CHR 0x22] @ '' (must force) - image has serveral references'')), w, [])
         else remove_primary_references d imgid (GetPrimaryReferences d w imgid) w)
      else
        (let namedRef = TrimTagForDigest d namedRef
         in if ref_String d primaryRef = ref_String d namedRef
            then
              (case RemoveReference d w imgid primaryRef of
                 (Some err, w1) \<Rightarrow> (Some err, w1, [CallRemoveReference imgid primaryRef])
               | (None, w1) \<Rightarrow>
                   (case client_RemoveImage d w1 (ref_String d primaryRef) of
                      (res, w2) \<Rightarrow>
                        (res, w2,
                         [CallRemoveReference imgid primaryRef,
                          CallClientRemoveImage (ref_String d primaryRef)])))
            else
              (let w1 = LogImageEvent d w (ref_String d namedRef) (ref_String d namedRef)
                          ''untag''
               in case RemoveReference d w1 imgid namedRef of
                    (res, w2) \<Rightarrow>
                      (res, w2,
                       [CallLogImageEvent (ref_String d namedRef) (ref_String d namedRef)
                          ''untag'',
                        CallRemoveReference imgid namedRef]))))"

text \<open>
  \<^verbatim>\<open>RemoveImage\<close>: the resolution, the body, and the deferred function, which runs
  when the body returns, with or without an error.
\<close>

definition RemoveImage ::
  "ImageManager \<Rightarrow> ('r, 'f, 'w) deps \<Rightarrow> 'w \<Rightarrow> string \<Rightarrow> bool
     \<Rightarrow> error option \<times> 'w \<times> 'r call list" where
  "RemoveImage mgr d w idOrRef force =
     (case CheckReference mgr d w idOrRef of
        Inl err \<Rightarrow> (Some err, w, [])
      | Inr (imgid, namedRef, primaryRef) \<Rightarrow>
          (case RemoveImage_body d w idOrRef force imgid namedRef primaryRef of
             (res, w1, calls) \<Rightarrow>
               (if length (GetPrimaryReferences d w1 imgid) = 0
                then (res, ClearCtrdImageInfo d w1 imgid, calls @ [CallClearCtrdImageInfo imgid])
                else (res, w1, calls))))"

subsection \<open>AddTag\<close>




definition fetchContainerdImage ::
  "ImageManager \<Rightarrow> ('r, 'f, 'w) deps \<Rightarrow> 'w \<Rightarrow> string \<Rightarrow> error + Image" where
  "fetchContainerdImage mgr d w idOrRef =
     (case CheckReference mgr d w idOrRef of
        Inl err \<Rightarrow> Inl err
      | Inr (actualID, actualRef, ref) \<Rightarrow> client_GetImage d w (ref_String d ref))"

definition addReferenceIntoStore ::
  "('r, 'f, 'w) deps \<Rightarrow> 'w \<Rightarrow> digest \<Rightarrow> 'r \<Rightarrow> digest \<Rightarrow> error option \<times> 'w" where
  "addReferenceIntoStore d w imgid ref dig =
     (case AddReference d w imgid ref ref of
        (Some err, w1) \<Rightarrow> (Some err, w1)
      | (None, w1) \<Rightarrow>
          (if IsNameTagged d ref
           then
             (let digRef = WithDigest d ref dig
              in case Search d w1 digRef of
                   Inl err \<Rightarrow>
                     (if IsNotfound err then AddReference d w1 imgid ref digRef
                      else (None, w1))
                 | Inr found \<Rightarrow> (None, w1))
           else (None, w1)))"


subsection \<open>ImageHistory\<close>

definition getManifest :: "Image \<Rightarrow> error + Descriptor list" where
  "getManifest img =
     (case img_Manifest img of
        Inl err \<Rightarrow> Inl err
      | Inr layers \<Rightarrow>
          (case img_RootFS img of
             Inl err \<Rightarrow> Inl err
           | Inr diffIDs \<Rightarrow>
               (if length layers \<noteq> length diffIDs
                then Inl (ErrorsNew ''mismatched image rootfs and manifest layers'')
                else Inr layers)))"

text \<open>
  The loop of \<^verbatim>\<open>ImageHistory\<close> from index \<open>i\<close> on, with the layer pointer \<open>j\<close> and the
  output slice \<open>history\<close>; it returns the slice and the pointer after the last entry.
\<close>

function history_loop ::
  "(digest \<Rightarrow> error + int) \<Rightarrow> string \<Rightarrow> Descriptor list \<Rightarrow> History list
     \<Rightarrow> nat \<Rightarrow> int \<Rightarrow> HistoryResultItem list \<Rightarrow> error + HistoryResultItem list \<times> int" where
  "history_loop info dgst layers ociImageHistory i j history =
     (if i < length ociImageHistory then
        (let h = ociImageHistory ! (length ociImageHistory - i - 1);
             item = \<lparr>Created = h_Created h, CreatedBy = h_CreatedBy h, Author = h_Author h,
                     Comment = h_Comment h, EmptyLayer = h_EmptyLayer h,
                     ID = ''<missing>'', Size = 0\<rparr>;
             item = (if i = 0 then item\<lparr>ID := dgst\<rparr> else item)
         in if \<not> EmptyLayer item then
              (if j < 0
               then Inl (ErrorsNew ''number of manifest layers shouldn't be less than number of non-empty layer in history info'')
               else
                 (case info (desc_Digest (layers ! nat j)) of
                    Inl err \<Rightarrow> Inl err
                  | Inr sz \<Rightarrow>
                      history_loop info dgst layers ociImageHistory (i + 1) (j - 1)
                        (history[i := item\<lparr>Size := sz\<rparr>])))
            else history_loop info dgst layers ociImageHistory (i + 1) j (history[i := item]))
      else Inr (history, j))"
  by pat_completeness auto
termination
  by (relation "measure (\<lambda>(info, dgst, layers, hist, i, j, history). length hist - i)") auto

declare history_loop.simps [simp del]

text \<open>The zero value of \<^verbatim>\<open>types.HistoryResultItem\<close>, which \<^verbatim>\<open>make\<close> fills the slice with.\<close>

definition zero_item :: HistoryResultItem where
  "zero_item = \<lparr>Created = 0, CreatedBy = [], Author = [], Comment = [],
                EmptyLayer = False, ID = [], Size = 0\<rparr>"

text \<open>
  The part of \<^verbatim>\<open>ImageHistory\<close> after the image is fetched: the config descriptor, the
  OCI image, the manifest, and the walk.
\<close>

definition history_of_image :: "Image \<Rightarrow> error + HistoryResultItem list" where
  "history_of_image img =
     (case img_Config img of
        Inl err \<Rightarrow> Inl err
      | Inr dgst \<Rightarrow>
          (case img_OciImage img of
             Inl err \<Rightarrow> Inl err
           | Inr ociImage \<Rightarrow>
               (case getManifest img of
                  Inl err \<Rightarrow> Inl err
                | Inr layers \<Rightarrow>
                    (let ociImageHistory = oci_History ociImage;
                         lenOciImageHistory = length ociImageHistory;
                         history = replicate lenOciImageHistory zero_item;
                         j = int (length layers) - 1
                     in case history_loop (img_Info img) dgst layers ociImageHistory 0 j
                               history of
                          Inl err \<Rightarrow> Inl err
                        | Inr (history, j) \<Rightarrow>
                            (if j \<noteq> -1
                             then Inl (ErrorsNew ''number of manifest layers shouldn't be greater than number of non-empty layer in history info'')
                             else Inr history)))))"

definition ImageHistory ::
  "ImageManager \<Rightarrow> ('r, 'f, 'w) deps \<Rightarrow> 'w \<Rightarrow> string \<Rightarrow> error + HistoryResultItem list" where
  "ImageHistory mgr d w idOrRef =
     (case fetchContainerdImage mgr d w idOrRef of
        Inl err \<Rightarrow> Inl err
      | Inr img \<Rightarrow> history_of_image img)"

subsection \<open>GetImage and ListImages\<close>

text \<open>The filter tags accepted by \<^verbatim>\<open>pouch images -f\<close>.\<close>

definition acceptedImageFilterTags :: "string \<Rightarrow> bool" where
  "acceptedImageFilterTags k = (k = ''before'' \<or> k = ''since'' \<or> k = ''reference'')"

text \<open>
  The type switch over the references of an image: a tagged reference goes to the
  tags, a canonical digested one to the digests.
\<close>

definition collect_repo ::
  "('r, 'f, 'w) deps \<Rightarrow> string list \<times> string list \<Rightarrow> 'r \<Rightarrow> string list \<times> string list" where
  "collect_repo d acc ref =
     (case acc of
        (repoTags, repoDigests) \<Rightarrow>
          (if is_Tagged d ref then (repoTags @ [ref_String d ref], repoDigests)
           else if is_CanonicalDigested d ref then (repoTags, repoDigests @ [ref_String d ref])
           else (repoTags, repoDigests)))"

definition containerdImageToImageInfo ::
  "('r, 'f, 'w) deps \<Rightarrow> 'w \<Rightarrow> digest \<Rightarrow> error + ImageInfo" where
  "containerdImageToImageInfo d w imgid =
     (case GetCtrdImageInfo d w imgid of
        Inl err \<Rightarrow>
          (if err = errCtrdImageInfoNotExist
           then Inl (Wrap ErrNotfound
                  (''failed to get ctrd image info from cache by imageID: '' @ imgid))
           else Inl err)
      | Inr ctrdImageInfo \<Rightarrow>
          (let ociImage = ci_OCISpec ctrdImageInfo;
               (repoTags, repoDigests) =
                 foldl (collect_repo d) ([], []) (GetReferences d w (ci_ID ctrdImageInfo))
           in Inr \<lparr>ii_Architecture = oci_Architecture ociImage,
                    ii_Config = oci_Config ociImage,
                    ii_CreatedAt = time_Format d (oci_Created ociImage),
                    ii_ID = ci_ID ctrdImageInfo,
                    ii_Os = oci_OS ociImage,
                    ii_RepoDigests = repoDigests,
                    ii_RepoTags = repoTags,
                    ii_RootFSType = oci_RootFSType ociImage,
                    ii_RootFSLayers = oci_DiffIDs ociImage,
                    ii_Size = ci_Size ctrdImageInfo\<rparr>))"

definition GetImage ::
  "ImageManager \<Rightarrow> ('r, 'f, 'w) deps \<Rightarrow> 'w \<Rightarrow> string \<Rightarrow> error + ImageInfo" where
  "GetImage mgr d w idOrRef =
     (case CheckReference mgr d w idOrRef of
        Inl err \<Rightarrow> Inl err
      | Inr (imgid, actualRef, primaryRef) \<Rightarrow> containerdImageToImageInfo d w imgid)"

text \<open>The inner loop of \<^verbatim>\<open>filterReference\<close>: the patterns in order, up to the first match.\<close>

fun match_patterns :: "('r, 'f, 'w) deps \<Rightarrow> string list \<Rightarrow> string \<Rightarrow> error + bool" where
  "match_patterns d [] ref = Inr False"
| "match_patterns d (pattern # patterns) ref =
     (case FamiliarMatch d pattern ref of
        Inl err \<Rightarrow> Inl err
      | Inr found \<Rightarrow> (if found then Inr True else match_patterns d patterns ref))"

text \<open>The outer loop of \<^verbatim>\<open>filterReference\<close>, with the slice built so far.\<close>

fun filter_loop ::
  "('r, 'f, 'w) deps \<Rightarrow> string list \<Rightarrow> string list \<Rightarrow> string list \<Rightarrow> error + string list" where
  "filter_loop d filter0 [] filteredRefs = Inr filteredRefs"
| "filter_loop d filter0 (ref # refs) filteredRefs =
     (case match_patterns d filter0 ref of
        Inl err \<Rightarrow> Inl err
      | Inr found \<Rightarrow>
          filter_loop d filter0 refs (if found then filteredRefs @ [ref] else filteredRefs))"

definition filterReference ::
  "('r, 'f, 'w) deps \<Rightarrow> string list \<Rightarrow> string list \<Rightarrow> error + string list" where
  "filterReference d filter0 ref =
     (if length filter0 = 0 then Inr ref else filter_loop d filter0 ref [])"

text \<open>
  The resolution of a \<open>before\<close> or \<open>since\<close> filter: no time when the filter is absent,
  else the parsed creation time of the image its first value names.
\<close>

definition filter_time ::
  "ImageManager \<Rightarrow> ('r, 'f, 'w) deps \<Rightarrow> 'w \<Rightarrow> string list \<Rightarrow> error + int option" where
  "filter_time mgr d w images =
     (if length images > 0
      then
        (case GetImage mgr d w (images ! 0) of
           Inl err \<Rightarrow> Inl err
         | Inr imgFilter \<Rightarrow>
             (case time_Parse d (ii_CreatedAt imgFilter) of
                Inl err \<Rightarrow> Inl err
              | Inr t \<Rightarrow> Inr (Some t)))
      else Inr None)"

text \<open>The loop of \<^verbatim>\<open>ListImages\<close> over the cached entries, with the result so far.\<close>

fun list_loop ::
  "('r, 'f, 'w) deps \<Rightarrow> 'w \<Rightarrow> int option \<Rightarrow> int option \<Rightarrow> string list
     \<Rightarrow> CtrdImageInfo list \<Rightarrow> ImageInfo list \<Rightarrow> error + ImageInfo list" where
  "list_loop d w beforeTime sinceTime referenceFilter [] imgInfos = Inr imgInfos"
| "list_loop d w beforeTime sinceTime referenceFilter (img # imgs) imgInfos =
     (if (case beforeTime of
            None \<Rightarrow> False
          | Some bt \<Rightarrow> oci_Created (ci_OCISpec img) = bt \<or> oci_Created (ci_OCISpec img) > bt)
      then list_loop d w beforeTime sinceTime referenceFilter imgs imgInfos
      else if (case sinceTime of
                 None \<Rightarrow> False
               | Some st \<Rightarrow> oci_Created (ci_OCISpec img) = st \<or> oci_Created (ci_OCISpec img) < st)
      then list_loop d w beforeTime sinceTime referenceFilter imgs imgInfos
      else
        (case containerdImageToImageInfo d w (ci_ID img) of
           Inl err \<Rightarrow> list_loop d w beforeTime sinceTime referenceFilter imgs imgInfos
         | Inr imgInfo \<Rightarrow>
             (if length referenceFilter = 0
              then list_loop d w beforeTime sinceTime referenceFilter imgs (imgInfos @ [imgInfo])
              else
                (case filterReference d referenceFilter (ii_RepoDigests imgInfo) of
                   Inl err \<Rightarrow> Inl err
                 | Inr repoDigests \<Rightarrow>
                     (case filterReference d referenceFilter (ii_RepoTags imgInfo) of
                        Inl err \<Rightarrow> Inl err
                      | Inr repoTags \<Rightarrow>
                          (if length repoTags > 0 \<or> length repoDigests > 0
                           then list_loop d w beforeTime sinceTime referenceFilter imgs
                                  (imgInfos @ [imgInfo\<lparr>ii_RepoDigests := repoDigests,
                                                        ii_RepoTags := repoTags\<rparr>])
                           else list_loop d w beforeTime sinceTime referenceFilter imgs
                                  imgInfos))))))"

definition ListImages ::
  "ImageManager \<Rightarrow> ('r, 'f, 'w) deps \<Rightarrow> 'w \<Rightarrow> 'f \<Rightarrow> error + ImageInfo list" where
  "ListImages mgr d w filter0 =
     (case filter_Validate d filter0 acceptedImageFilterTags of
        Some err \<Rightarrow> Inl err
      | None \<Rightarrow>
          (let beforeImages = filter_Get d filter0 ''before'';
               sinceImages = filter_Get d filter0 ''since'';
               referenceFilter = filter_Get d filter0 ''reference''
           in if length beforeImages > 1
              then Inl (Wrap ErrInvalidParam ''can't use before filter more than one'')
              else if length sinceImages > 1
              then Inl (Wrap ErrInvalidParam ''can't use since filter more than one'')
              else
                (let ctrdImageInfos = ListCtrdImageInfo d w
                 in case filter_time mgr d w beforeImages of
                      Inl err \<Rightarrow> Inl err
                    | Inr beforeTime \<Rightarrow>
                        (case filter_time mgr d w sinceImages of
                           Inl err \<Rightarrow> Inl err
                         | Inr sinceTime \<Rightarrow>
                             list_loop d w beforeTime sinceTime referenceFilter
                               ctrdImageInfos []))))"

section \<open>The collaborators, modelled from the specification\<close>

subsection \<open>References\<close>

text \<open>
  Modelled from the spec: the reference package (\<^verbatim>\<open>pkg/reference\<close> is not among the
  sources). A reference has a locator (registry host and path), an optional tag and
  an optional digest; it is name-only when it has neither, tagged when it has a tag,
  digested when it has a digest.
\<close>

datatype reference = Reference (r_name: string) (r_tag: "string option") (r_digest: "digest option")

definition reference_String :: "reference \<Rightarrow> string" where
  "reference_String r =
     r_name r
     @ (case r_tag r of None \<Rightarrow> [] | Some t \<Rightarrow> '':'' @ t)
     @ (case r_digest r of None \<Rightarrow> [] | Some dg \<Rightarrow> ''@'' @ dg)"

definition reference_IsNamedOnly :: "reference \<Rightarrow> bool" where
  "reference_IsNamedOnly r = (r_tag r = None \<and> r_digest r = None)"

definition reference_IsNameTagged :: "reference \<Rightarrow> bool" where
  "reference_IsNameTagged r = (r_tag r \<noteq> None \<and> r_digest r = None)"

text \<open>
  Modelled from the spec: \<^verbatim>\<open>reference.WithDefaultTagIfMissing\<close> (not among the
  sources): default-tagging gives a reference with neither tag nor digest the default
  tag.
\<close>

definition reference_WithDefaultTagIfMissing :: "reference \<Rightarrow> reference" where
  "reference_WithDefaultTagIfMissing r =
     (if reference_IsNamedOnly r then Reference (r_name r) (Some ''latest'') None else r)"

text \<open>
  Modelled from the spec: \<^verbatim>\<open>reference.TrimTagForDigest\<close> (not among the sources)
  strips any tag when a digest is also present (the digest takes precedence).
\<close>

definition reference_TrimTagForDigest :: "reference \<Rightarrow> reference" where
  "reference_TrimTagForDigest r =
     (if r_digest r \<noteq> None then Reference (r_name r) None (r_digest r) else r)"

definition reference_WithDigest :: "reference \<Rightarrow> digest \<Rightarrow> reference" where
  "reference_WithDigest r dg = Reference (r_name r) None (Some dg)"

text \<open>
  Modelled from the spec: \<^verbatim>\<open>reference.Parse\<close> (not among the sources): the parser
  recognises an optional \<open>@digest\<close> suffix and an optional \<open>:tag\<close> after the last
  slash, and fails on an empty name, tag or digest.
\<close>

definition after_last :: "char \<Rightarrow> string \<Rightarrow> string" where
  "after_last c s = rev (takeWhile (\<lambda>x. x \<noteq> c) (rev s))"

definition reference_Parse :: "string \<Rightarrow> error + reference" where
  "reference_Parse s =
     (let nt = takeWhile (\<lambda>x. x \<noteq> CHR ''@'') s;
          dg = (if CHR ''@'' \<in> set s
                then Some (drop 1 (dropWhile (\<lambda>x. x \<noteq> CHR ''@'') s)) else None);
          seg = after_last (CHR ''/'') nt;
          tg = (if CHR '':'' \<in> set seg then Some (after_last (CHR '':'') seg) else None);
          nm = (case tg of None \<Rightarrow> nt | Some t \<Rightarrow> take (length nt - length t - 1) nt)
      in if nm = [] \<or> tg = Some [] \<or> dg = Some []
         then Inl (ErrorsNew ''invalid reference'')
         else Inr (Reference nm tg dg))"

text \<open>
  Modelled from the spec: \<^verbatim>\<open>addDefaultRegistryIfMissing\<close> (a helper of the manager's
  package that is not among the sources): qualifying a string with the default
  registry and namespace, as the last candidate of the expansion is built.
\<close>

definition default_registry_if_missing :: "string \<Rightarrow> string \<Rightarrow> string \<Rightarrow> string" where
  "default_registry_if_missing ref defaultRegistry defaultNamespace =
     (let (registry, remainder) = extract_domain ref;
          registry = (if registry = [] then defaultRegistry else registry);
          remainder = (if registry = defaultRegistry \<and> \<not> ContainsAny remainder ''/''
                       then defaultNamespace @ ''/'' @ remainder else remainder)
      in registry @ ''/'' @ remainder)"

subsection \<open>The local store\<close>

text \<open>
  Modelled from the spec: the local reference store (\<^verbatim>\<open>imageStore\<close> is not among the
  sources). Each stored reference is registered under an image id together with the
  candidate reference it was added for; it is primary when the two are equal and
  searchable otherwise. The metadata cache maps an id to its entry.
\<close>

record imageStore =
  st_refs :: "(reference \<times> digest \<times> reference) list"
  st_cache :: "(digest \<times> CtrdImageInfo) list"

definition store_ids :: "imageStore \<Rightarrow> digest list" where
  "store_ids st = remdups (map (\<lambda>(stored, i, cand). i) (st_refs st))"

definition store_lookup :: "imageStore \<Rightarrow> reference \<Rightarrow> (reference \<times> digest \<times> reference) option" where
  "store_lookup st ref = find (\<lambda>(stored, i, cand). stored = ref) (st_refs st)"

text \<open>
  Modelled from the spec: \<open>addReference(id, candidateRef, storedRef)\<close> registers the
  stored reference under the id, and fails if the stored reference already maps to a
  different id.
\<close>

definition store_AddReference ::
  "imageStore \<Rightarrow> digest \<Rightarrow> reference \<Rightarrow> reference \<Rightarrow> error option \<times> imageStore" where
  "store_AddReference st imgid cand stored =
     (case store_lookup st stored of
        Some (s, i, c) \<Rightarrow>
          (if i \<noteq> imgid then (Some (ErrorsNew ''reference is used by another image''), st)
           else (None, st\<lparr>st_refs :=
                   map (\<lambda>e. if fst e = stored then (stored, imgid, cand) else e) (st_refs st)\<rparr>))
      | None \<Rightarrow> (None, st\<lparr>st_refs := st_refs st @ [(stored, imgid, cand)]\<rparr>))"

text \<open>
  Modelled from the spec: \<open>removeReference(id, ref)\<close> deletes the mapping; a no-op if
  absent.
\<close>

definition store_RemoveReference ::
  "imageStore \<Rightarrow> digest \<Rightarrow> reference \<Rightarrow> error option \<times> imageStore" where
  "store_RemoveReference st imgid ref =
     (None, st\<lparr>st_refs :=
        filter (\<lambda>(stored, i, cand). \<not> (stored = ref \<and> i = imgid)) (st_refs st)\<rparr>)"

text \<open>
  Modelled from the spec: \<open>search(ref)\<close>. A reference whose string is a prefix of
  exactly one id of the store (an id or short id) names that image; otherwise an
  exact-match reverse lookup.
\<close>

definition store_Search :: "imageStore \<Rightarrow> reference \<Rightarrow> error + digest \<times> reference" where
  "store_Search st ref =
     (case filter (\<lambda>i. HasPrefix i (reference_String ref)) (store_ids st) of
        [i] \<Rightarrow> Inr (i, ref)
      | _ \<Rightarrow>
          (case store_lookup st ref of
             Some (stored, i, cand) \<Rightarrow> Inr (i, stored)
           | None \<Rightarrow> Inl ErrNotfound))"

text \<open>
  Modelled from the spec: \<open>getPrimaryReference(ref)\<close>, for an exact reference, is the
  primary reference it was registered for; \<open>getReferences(id)\<close> and
  \<open>getPrimaryReferences(id)\<close> are all references, and all primary references, of an
  id; the metadata operations look up, evict and list the cache entries.
\<close>

definition store_GetPrimaryReference :: "imageStore \<Rightarrow> reference \<Rightarrow> error + reference" where
  "store_GetPrimaryReference st ref =
     (case store_lookup st ref of
        Some (stored, i, cand) \<Rightarrow> Inr cand
      | None \<Rightarrow> Inl ErrNotfound)"

definition store_GetReferences :: "imageStore \<Rightarrow> digest \<Rightarrow> reference list" where
  "store_GetReferences st imgid =
     map fst (filter (\<lambda>(stored, i, cand). i = imgid) (st_refs st))"

definition store_GetPrimaryReferences :: "imageStore \<Rightarrow> digest \<Rightarrow> reference list" where
  "store_GetPrimaryReferences st imgid =
     map fst (filter (\<lambda>(stored, i, cand). i = imgid \<and> cand = stored) (st_refs st))"

definition store_GetCtrdImageInfo :: "imageStore \<Rightarrow> digest \<Rightarrow> error + CtrdImageInfo" where
  "store_GetCtrdImageInfo st imgid =
     (case map_of (st_cache st) imgid of
        Some info \<Rightarrow> Inr info
      | None \<Rightarrow> Inl errCtrdImageInfoNotExist)"

definition store_ClearCtrdImageInfo :: "imageStore \<Rightarrow> digest \<Rightarrow> imageStore" where
  "store_ClearCtrdImageInfo st imgid =
     st\<lparr>st_cache := filter (\<lambda>(i, info). i \<noteq> imgid) (st_cache st)\<rparr>"

definition store_ListCtrdImageInfo :: "imageStore \<Rightarrow> CtrdImageInfo list" where
  "store_ListCtrdImageInfo st = map snd (st_cache st)"

subsection \<open>The world: store, client and events\<close>

text \<open>
  Modelled from the spec: the remote content client and the event sink (external
  collaborators). The client holds named images; removing or fetching a name it does
  not hold is an error. The event sink records what it is given.
\<close>

record world =
  w_store :: imageStore
  w_remote :: "(string \<times> Image) list"
  w_events :: "(string \<times> string \<times> string) list"

definition world_GetImage :: "world \<Rightarrow> string \<Rightarrow> error + Image" where
  "world_GetImage w name =
     (case map_of (w_remote w) name of
        Some img \<Rightarrow> Inr img
      | None \<Rightarrow> Inl (ErrorsNew ''image not found in containerd''))"

definition world_RemoveImage :: "world \<Rightarrow> string \<Rightarrow> error option \<times> world" where
  "world_RemoveImage w name =
     (if name \<in> set (map fst (w_remote w))
      then (None, w\<lparr>w_remote := filter (\<lambda>(n, img). n \<noteq> name) (w_remote w)\<rparr>)
      else (Some (ErrorsNew ''image not found in containerd''), w))"

definition world_CreateImageReference ::
  "world \<Rightarrow> string \<Rightarrow> digest \<Rightarrow> error option \<times> world" where
  "world_CreateImageReference w name target =
     (case find (\<lambda>(n, img). img_Target img = target) (w_remote w) of
        Some (n, img) \<Rightarrow> (None, w\<lparr>w_remote := w_remote w @ [(name, img\<lparr>img_Name := name\<rparr>)]\<rparr>)
      | None \<Rightarrow> (Some (ErrorsNew ''target not found in containerd''), w))"

definition world_LogImageEvent :: "world \<Rightarrow> string \<Rightarrow> string \<Rightarrow> string \<Rightarrow> world" where
  "world_LogImageEvent w name ref action = w\<lparr>w_events := w_events w @ [(name, ref, action)]\<rparr>"

definition on_store ::
  "(imageStore \<Rightarrow> error option \<times> imageStore) \<Rightarrow> world \<Rightarrow> error option \<times> world" where
  "on_store f w = (case f (w_store w) of (res, st) \<Rightarrow> (res, w\<lparr>w_store := st\<rparr>))"

subsection \<open>Filters and time\<close>

text \<open>
  Modelled from the spec: \<^verbatim>\<open>filters.Args\<close> (not among the sources): a filter set
  maps a key to its values; it is valid when every key is accepted.
\<close>

type_synonym filterArgs = "(string \<times> string list) list"

definition args_Validate :: "filterArgs \<Rightarrow> (string \<Rightarrow> bool) \<Rightarrow> error option" where
  "args_Validate f accepted =
     (if list_all (\<lambda>(k, vs). accepted k) f then None
      else Some (ErrorsNew ''Invalid filter''))"

definition args_Get :: "filterArgs \<Rightarrow> string \<Rightarrow> string list" where
  "args_Get f k = (case map_of f k of Some vs \<Rightarrow> vs | None \<Rightarrow> [])"

text \<open>
  Modelled from the spec: \<^verbatim>\<open>filters.FamiliarMatch\<close> (not among the sources): a
  glob-style pattern, in which \<open>*\<close> stands for any run of characters; a pattern with
  an opening bracket is taken as malformed.
\<close>

fun glob :: "string \<Rightarrow> string \<Rightarrow> bool" where
  "glob [] s = (s = [])"
| "glob (p # ps) [] = (p = CHR ''*'' \<and> glob ps [])"
| "glob (p # ps) (c # cs) =
     (if p = CHR ''*'' then glob ps (c # cs) \<or> glob (p # ps) cs
      else p = c \<and> glob ps cs)"

definition glob_FamiliarMatch :: "string \<Rightarrow> string \<Rightarrow> error + bool" where
  "glob_FamiliarMatch pattern ref =
     (if CHR ''['' \<in> set pattern then Inl (ErrorsNew ''syntax error in pattern'')
      else Inr (glob pattern ref))"

text \<open>
  Modelled from the spec: \<^verbatim>\<open>utils.TimeLayout\<close> (not among the sources): the time
  layout writes an instant as the run of its decimal digits, and parsing reads it
  back.
\<close>

fun digits_of :: "nat \<Rightarrow> string" where
  "digits_of n =
     (if n < 10 then [char_of (48 + n)]
      else digits_of (n div 10) @ [char_of (48 + n mod 10)])"

definition layout_Format :: "int \<Rightarrow> string" where
  "layout_Format t = (if t < 0 then ''-'' @ digits_of (nat (- t)) else digits_of (nat t))"

definition number_of :: "string \<Rightarrow> nat" where
  "number_of s = foldl (\<lambda>acc c. 10 * acc + (of_char c - 48)) 0 s"

definition layout_Parse :: "string \<Rightarrow> error + int" where
  "layout_Parse s =
     (let body = (if s \<noteq> [] \<and> hd s = CHR ''-'' then tl s else s)
      in if body = [] \<or> \<not> list_all (\<lambda>c. c \<in> set ''0123456789'') body
         then Inl (ErrorsNew ''cannot parse time'')
         else Inr (if s \<noteq> [] \<and> hd s = CHR ''-''
                   then - int (number_of body) else int (number_of body)))"

subsection \<open>The collaborators together\<close>

definition store_deps :: "(reference, filterArgs, world) deps" where
  "store_deps =
     \<lparr>Parse = reference_Parse,
      ref_String = reference_String,
      ref_Name = r_name,
      IsNamedOnly = reference_IsNamedOnly,
      IsNameTagged = reference_IsNameTagged,
      is_Tagged = (\<lambda>r. r_tag r \<noteq> None),
      is_Digested = (\<lambda>r. r_digest r \<noteq> None),
      is_CanonicalDigested = (\<lambda>r. r_digest r \<noteq> None),
      TrimTagForDigest = reference_TrimTagForDigest,
      WithDefaultTagIfMissing = reference_WithDefaultTagIfMissing,
      WithDigest = reference_WithDigest,
      addDefaultRegistryIfMissing = default_registry_if_missing,
      Search = (\<lambda>w. store_Search (w_store w)),
      GetReferences = (\<lambda>w. store_GetReferences (w_store w)),
      GetPrimaryReferences = (\<lambda>w. store_GetPrimaryReferences (w_store w)),
      GetPrimaryReference = (\<lambda>w. store_GetPrimaryReference (w_store w)),
      AddReference = (\<lambda>w imgid cand stored.
        on_store (\<lambda>st. store_AddReference st imgid cand stored) w),
      RemoveReference = (\<lambda>w imgid ref. on_store (\<lambda>st. store_RemoveReference st imgid ref) w),
      ListCtrdImageInfo = (\<lambda>w. store_ListCtrdImageInfo (w_store w)),
      GetCtrdImageInfo = (\<lambda>w. store_GetCtrdImageInfo (w_store w)),
      ClearCtrdImageInfo = (\<lambda>w imgid. w\<lparr>w_store := store_ClearCtrdImageInfo (w_store w) imgid\<rparr>),
      client_GetImage = world_GetImage,
      client_RemoveImage = world_RemoveImage,
      client_CreateImageReference = world_CreateImageReference,
      LogImageEvent = world_LogImageEvent,
      filter_Validate = args_Validate,
      filter_Get = args_Get,
      FamiliarMatch = glob_FamiliarMatch,
      time_Format = layout_Format,
      time_Parse = layout_Parse\<rparr>"

section \<open>The operations in the words of the specification\<close>

text \<open>
  The primary counterpart of a matched reference: for a name-only reference, or one
  whose string is a prefix of the id, the first primary reference of the id, and
  \<open>NotFound\<close> when there is none; otherwise the primary reference of the matched
  reference.
\<close>

definition primary_counterpart ::
  "('r, 'f, 'w) deps \<Rightarrow> 'w \<Rightarrow> digest \<Rightarrow> 'r \<Rightarrow> error + digest \<times> 'r \<times> 'r" where
  "primary_counterpart d w imgid matched =
     (if IsNamedOnly d matched \<or> prefix (ref_String d matched) imgid
      then (case GetPrimaryReferences d w imgid of
              [] \<Rightarrow> Inl ErrNotfound
            | p # ps \<Rightarrow> Inr (imgid, matched, p))
      else (case GetPrimaryReference d w matched of
              Inl err \<Rightarrow> Inl err
            | Inr p \<Rightarrow> Inr (imgid, matched, p)))"

text \<open>
  The two passes of the search: the parsed input as it is; on a not-found miss, and
  only if qualifying the input changes the string, the qualified input parsed again.
\<close>

definition two_pass_search ::
  "ImageManager \<Rightarrow> ('r, 'f, 'w) deps \<Rightarrow> 'w \<Rightarrow> string \<Rightarrow> 'r \<Rightarrow> error + digest \<times> 'r" where
  "two_pass_search mgr d w s parsed =
     (case Search d w parsed of
        Inr found \<Rightarrow> Inr found
      | Inl err \<Rightarrow>
          (let qualified = addDefaultRegistryIfMissing d s (DefaultRegistry mgr)
                             (DefaultNamespace mgr)
           in if IsNotfound err \<and> qualified \<noteq> s
              then (case Parse d qualified of
                      Inl perr \<Rightarrow> Inl perr
                    | Inr parsed2 \<Rightarrow> Search d w parsed2)
              else Inl err))"

text \<open>
  The history in the words of the specification. The output is presented top-most
  first; \<open>non_empty_before hist i\<close> counts the entries that are not empty layers
  among the first \<open>i\<close> of the reversed history, so the layer pointer at output index
  \<open>i\<close> stands at \<open>length layers - 1 - non_empty_before hist i\<close>. The item at index
  \<open>i\<close> copies the reversed history entry, carries the digest as its id only at
  index 0, and has the size of the layer at the pointer, or 0 for an empty layer.
\<close>

definition non_empty_before :: "History list \<Rightarrow> nat \<Rightarrow> nat" where
  "non_empty_before hist i = length (filter (\<lambda>h. \<not> h_EmptyLayer h) (take i (rev hist)))"

definition expected_item ::
  "(digest \<Rightarrow> int) \<Rightarrow> string \<Rightarrow> Descriptor list \<Rightarrow> History list \<Rightarrow> nat \<Rightarrow> HistoryResultItem" where
  "expected_item size_of dgst layers hist i =
     (let h = rev hist ! i
      in \<lparr>Created = h_Created h, CreatedBy = h_CreatedBy h, Author = h_Author h,
           Comment = h_Comment h, EmptyLayer = h_EmptyLayer h,
           ID = (if i = 0 then dgst else ''<missing>''),
           Size = (if h_EmptyLayer h then 0
                   else size_of (desc_Digest
                          (layers ! (length layers - 1 - non_empty_before hist i))))\<rparr>)"

definition too_few_layers :: error where
  "too_few_layers = ErrorsNew ''number of manifest layers shouldn't be less than number of non-empty layer in history info''"

definition too_many_layers :: error where
  "too_many_layers = ErrorsNew ''number of manifest layers shouldn't be greater than number of non-empty layer in history info''"

text \<open>
  Removal as a sequence of steps: each call is performed on the world, one after the
  other, and the first failure stops the sequence and is returned with the calls made
  so far. The steps of an identity removal are, for each primary reference in turn,
  the removal from the remote store and then from the local index.
\<close>

definition perform ::
  "('r, 'f, 'w) deps \<Rightarrow> 'r call \<Rightarrow> 'w \<Rightarrow> error option \<times> 'w" where
  "perform d c w =
     (case c of
        CallClientRemoveImage name \<Rightarrow> client_RemoveImage d w name
      | CallRemoveReference imgid ref \<Rightarrow> RemoveReference d w imgid ref
      | CallLogImageEvent name ref action \<Rightarrow> (None, LogImageEvent d w name ref action)
      | CallClearCtrdImageInfo imgid \<Rightarrow> (None, ClearCtrdImageInfo d w imgid))"

fun run_steps ::
  "('r, 'f, 'w) deps \<Rightarrow> 'r call list \<Rightarrow> 'w \<Rightarrow> error option \<times> 'w \<times> 'r call list" where
  "run_steps d [] w = (None, w, [])"
| "run_steps d (c # cs) w =
     (case perform d c w of
        (Some err, w1) \<Rightarrow> (Some err, w1, [c])
      | (None, w1) \<Rightarrow>
          (case run_steps d cs w1 of (res, w2, calls) \<Rightarrow> (res, w2, c # calls)))"

definition removal_steps :: "('r, 'f, 'w) deps \<Rightarrow> digest \<Rightarrow> 'r list \<Rightarrow> 'r call list" where
  "removal_steps d imgid refs =
     concat (map (\<lambda>ref. [CallClientRemoveImage (ref_String d ref),
                        CallRemoveReference imgid ref]) refs)"

definition must_force :: "string \<Rightarrow> error" where
  "must_force idOrRef =
     ErrorsNew (''Unable to remove the image '' @ [CHR 0x22] @ idOrRef @ [CHR 0x22]
                @ '' (must force) - image has serveral references'')"

text \<open>
  The named removal as the specification words it: the digest suffix is stripped
  first; a stripped reference equal to the primary reference is removed from the local
  index and the remote store, any other from the local index only, after an untag
  event.
\<close>

definition strip_digest :: "reference \<Rightarrow> reference" where
  "strip_digest r = Reference (r_name r) (r_tag r) None"

definition claimed_named_removal ::
  "('r, 'f, 'w) deps \<Rightarrow> ('r \<Rightarrow> 'r) \<Rightarrow> 'w \<Rightarrow> digest \<Rightarrow> 'r \<Rightarrow> 'r
     \<Rightarrow> error option \<times> 'w \<times> 'r call list" where
  "claimed_named_removal d strip w imgid namedRef primaryRef =
     (let stripped = strip namedRef
      in if ref_String d stripped = ref_String d primaryRef
         then run_steps d [CallRemoveReference imgid primaryRef,
                           CallClientRemoveImage (ref_String d primaryRef)] w
         else run_steps d [CallLogImageEvent (ref_String d stripped) (ref_String d stripped)
                             ''untag'',
                           CallRemoveReference imgid stripped] w)"

text \<open>The trace entries that evict a cache entry.\<close>

definition is_clear :: "'r call \<Rightarrow> bool" where
  "is_clear c = (case c of CallClearCtrdImageInfo imgid \<Rightarrow> True | _ \<Rightarrow> False)"

text \<open>
  The listing in the words of the specification. An entry is in the window when its
  creation time is strictly before the \<open>before\<close> time and strictly after the \<open>since\<close>
  time, where each is given. The converted entries are the image infos of the cached
  entries, an entry that cannot be converted being skipped. A name matches when some
  pattern matches it; an entry matches when one of its tag-form or digest-form names
  does, and a kept entry is narrowed to its matching names. The patterns are total on
  some names when no match of a pattern against a name is an error.
\<close>

definition in_window :: "int option \<Rightarrow> int option \<Rightarrow> CtrdImageInfo \<Rightarrow> bool" where
  "in_window beforeTime sinceTime img =
     ((case beforeTime of None \<Rightarrow> True | Some tb \<Rightarrow> oci_Created (ci_OCISpec img) < tb)
      \<and> (case sinceTime of None \<Rightarrow> True | Some ts \<Rightarrow> ts < oci_Created (ci_OCISpec img)))"

definition converted :: "('r, 'f, 'w) deps \<Rightarrow> 'w \<Rightarrow> CtrdImageInfo list \<Rightarrow> ImageInfo list" where
  "converted d w imgs =
     concat (map (\<lambda>img. case containerdImageToImageInfo d w (ci_ID img) of
                           Inl err \<Rightarrow> []
                         | Inr imgInfo \<Rightarrow> [imgInfo]) imgs)"

definition matches_some :: "('r, 'f, 'w) deps \<Rightarrow> string list \<Rightarrow> string \<Rightarrow> bool" where
  "matches_some d patterns name = (\<exists>p \<in> set patterns. FamiliarMatch d p name = Inr True)"

definition entry_matches :: "('r, 'f, 'w) deps \<Rightarrow> string list \<Rightarrow> ImageInfo \<Rightarrow> bool" where
  "entry_matches d patterns imgInfo =
     (\<exists>name \<in> set (ii_RepoTags imgInfo @ ii_RepoDigests imgInfo). matches_some d patterns name)"

definition narrow_entry :: "('r, 'f, 'w) deps \<Rightarrow> string list \<Rightarrow> ImageInfo \<Rightarrow> ImageInfo" where
  "narrow_entry d patterns imgInfo =
     imgInfo\<lparr>ii_RepoDigests := filter (matches_some d patterns) (ii_RepoDigests imgInfo),
             ii_RepoTags := filter (matches_some d patterns) (ii_RepoTags imgInfo)\<rparr>"

definition match_total :: "('r, 'f, 'w) deps \<Rightarrow> string list \<Rightarrow> string list \<Rightarrow> bool" where
  "match_total d patterns names =
     (\<forall>p \<in> set patterns. \<forall>name \<in> set names. isl (FamiliarMatch d p name) = False)"

section \<open>An example world\<close>

text \<open>
  A manager with two mirrors, and a world with three images. Image \<open>sha256:aa\<close> was
  pulled as \<open>ubuntu:latest\<close>; it has the derived digest alias and an alias with
  another locator as searchable references. Image \<open>sha256:bb\<close> was pulled by digest.
  Image \<open>sha256:cc\<close> has two primary references with different locators.
\<close>

definition ex_mgr :: ImageManager where
  "ex_mgr = \<lparr>DefaultRegistry = ''reg.example'', DefaultNamespace = ''library'',
             RegistryMirrors = [''m1'', ''m2'']\<rparr>"

definition ubuntu_latest :: reference where
  "ubuntu_latest = Reference ''reg.example/library/ubuntu'' (Some ''latest'') None"

definition ubuntu_digest :: reference where
  "ubuntu_digest = Reference ''reg.example/library/ubuntu'' None (Some ''sha256:m1'')"

definition alias_local :: reference where
  "alias_local = Reference ''localhost:5000/ubuntu'' (Some ''latest'') None"

definition busybox_digest :: reference where
  "busybox_digest = Reference ''reg.example/library/busybox'' None (Some ''sha256:m2'')"

definition repo_t1 :: reference where
  "repo_t1 = Reference ''a.com/repo'' (Some ''t1'') None"

definition repo_t2 :: reference where
  "repo_t2 = Reference ''b.com/repo'' (Some ''t2'') None"

definition nginx_tag :: reference where
  "nginx_tag = Reference ''reg.example/library/nginx'' (Some ''1.0'') None"

definition ex_history :: "History list" where
  "ex_history =
     [\<lparr>h_Created = 1, h_CreatedBy = ''ADD rootfs'', h_Author = ''dev'', h_Comment = [],
       h_EmptyLayer = False\<rparr>,
      \<lparr>h_Created = 2, h_CreatedBy = ''CMD sh'', h_Author = ''dev'', h_Comment = [],
       h_EmptyLayer = True\<rparr>,
      \<lparr>h_Created = 3, h_CreatedBy = ''COPY app'', h_Author = ''dev'', h_Comment = [],
       h_EmptyLayer = False\<rparr>]"

definition ex_oci :: "int \<Rightarrow> OciImage" where
  "ex_oci t = \<lparr>oci_Created = t, oci_Architecture = ''amd64'', oci_OS = ''linux'',
               oci_Config = [], oci_RootFSType = ''layers'',
               oci_DiffIDs = [''sha256:d0'', ''sha256:d1''], oci_History = ex_history\<rparr>"

definition ex_layers :: "Descriptor list" where
  "ex_layers = [\<lparr>desc_Digest = ''sha256:l0'', desc_Size = 100\<rparr>,
                \<lparr>desc_Digest = ''sha256:l1'', desc_Size = 200\<rparr>]"

definition ex_info :: "digest \<Rightarrow> error + int" where
  "ex_info dg =
     (if dg = ''sha256:l0'' then Inr 100
      else if dg = ''sha256:l1'' then Inr 200
      else Inl (ErrorsNew ''content not found''))"

definition ex_image :: "string \<Rightarrow> digest \<Rightarrow> int \<Rightarrow> Image" where
  "ex_image name cfg t =
     \<lparr>img_Name = name, img_Target = ''sha256:m1'', img_Config = Inr cfg,
      img_OciImage = Inr (ex_oci t), img_Manifest = Inr ex_layers,
      img_RootFS = Inr [''sha256:d0'', ''sha256:d1''], img_Info = ex_info\<rparr>"

definition ex_store :: imageStore where
  "ex_store =
     \<lparr>st_refs =
        [(ubuntu_latest, ''sha256:aa'', ubuntu_latest),
         (ubuntu_digest, ''sha256:aa'', ubuntu_latest),
         (alias_local, ''sha256:aa'', ubuntu_latest),
         (busybox_digest, ''sha256:bb'', busybox_digest),
         (repo_t1, ''sha256:cc'', repo_t1),
         (repo_t2, ''sha256:cc'', repo_t2)],
      st_cache =
        [(''sha256:aa'', \<lparr>ci_ID = ''sha256:aa'', ci_Size = 300, ci_OCISpec = ex_oci 10\<rparr>),
         (''sha256:bb'', \<lparr>ci_ID = ''sha256:bb'', ci_Size = 300, ci_OCISpec = ex_oci 20\<rparr>),
         (''sha256:cc'', \<lparr>ci_ID = ''sha256:cc'', ci_Size = 300, ci_OCISpec = ex_oci 30\<rparr>)]\<rparr>"

definition ex_world :: world where
  "ex_world =
     \<lparr>w_store = ex_store,
      w_remote =
        [(''reg.example/library/ubuntu:latest'',
            ex_image ''reg.example/library/ubuntu:latest'' ''sha256:aa'' 10),
         (''reg.example/library/busybox@sha256:m2'',
            ex_image ''reg.example/library/busybox@sha256:m2'' ''sha256:bb'' 20),
         (''a.com/repo:t1'', ex_image ''a.com/repo:t1'' ''sha256:cc'' 30),
         (''b.com/repo:t2'', ex_image ''b.com/repo:t2'' ''sha256:cc'' 30)],
      w_events = []\<rparr>"

text \<open>The example world with an empty remote store: every remote removal fails.\<close>

definition ex_world_offline :: world where
  "ex_world_offline = ex_world\<lparr>w_remote := []\<rparr>"

section \<open>Candidate expansion\<close>

lemma foldl_snoc_map: "foldl (\<lambda>acc x. acc @ [f x]) a xs = a @ map f xs"
  by (induction xs arbitrary: a) simp_all

lemma IndexRune_absent: "c \<notin> set s \<Longrightarrow> IndexRune s c = -1"
  by (induction s) auto

lemma IndexRune_first: "c \<notin> set dm \<Longrightarrow> IndexRune (dm @ c # rest) c = int (length dm)"
  by (induction dm) (auto simp: Let_def)

lemma ContainsAny_slash: "ContainsAny s ''/'' \<longleftrightarrow> CHR ''/'' \<in> set s"
  by (auto simp: ContainsAny_def)

lemma ContainsAny_dot_colon:
  "ContainsAny s ''.:'' \<longleftrightarrow> CHR ''.'' \<in> set s \<or> CHR '':'' \<in> set s"
  by (auto simp: ContainsAny_def)

text \<open>
  The domain field, on the shape of the reference: a reference without a slash has
  none; a reference \<open>dm/rest\<close>, where \<open>dm\<close> has no slash, has the domain \<open>dm\<close> and the
  remainder \<open>rest\<close> exactly when \<open>dm\<close> contains a dot or a colon.
\<close>

lemma extract_domain_plain:
  "CHR ''/'' \<notin> set ref \<Longrightarrow> extract_domain ref = ([], ref)"
  by (simp add: extract_domain_def IndexRune_absent)

lemma extract_domain_path:
  assumes "CHR ''/'' \<notin> set dm" and "CHR ''.'' \<notin> set dm" and "CHR '':'' \<notin> set dm"
  shows "extract_domain (dm @ ''/'' @ rest) = ([], dm @ ''/'' @ rest)"
  using assms
  by (simp add: extract_domain_def IndexRune_first ContainsAny_dot_colon Let_def)

lemma extract_domain_explicit:
  assumes "CHR ''/'' \<notin> set dm" and "CHR ''.'' \<in> set dm \<or> CHR '':'' \<in> set dm"
  shows "extract_domain (dm @ ''/'' @ rest) = (dm, rest)"
  using assms
  by (simp add: extract_domain_def IndexRune_first ContainsAny_dot_colon Let_def)

text \<open>
  C3. A reference has an explicit registry domain when what stands before its first
  slash contains a dot or a colon. For a reference without one, that is a reference
  without a slash, or \<open>dm/rest\<close> where \<open>dm\<close> has no slash, dot or colon,
  \<open>LookupImageReferences\<close> returns one candidate per configured mirror, in the
  configured order, followed by one last candidate built from the default registry;
  the default namespace stands before the remainder when the remainder, here the
  whole reference, has no slash. For a reference \<open>dm/rest\<close> with the explicit domain
  \<open>dm\<close> the only candidate is built from \<open>dm\<close>, with the default namespace before
  \<open>rest\<close> when \<open>dm\<close> is the default registry and \<open>rest\<close> has no slash.
\<close>

theorem LookupImageReferences_order:
  "(CHR ''/'' \<notin> set ref \<longrightarrow>
      LookupImageReferences mgr ref =
        map (\<lambda>reg. path_Join [reg, ref]) (RegistryMirrors mgr)
        @ [DefaultRegistry mgr @ ''/'' @ DefaultNamespace mgr @ ''/'' @ ref])
   \<and> (CHR ''/'' \<notin> set dm \<and> CHR ''.'' \<notin> set dm \<and> CHR '':'' \<notin> set dm \<longrightarrow>
      LookupImageReferences mgr (dm @ ''/'' @ rest) =
        map (\<lambda>reg. path_Join [reg, dm @ ''/'' @ rest]) (RegistryMirrors mgr)
        @ [DefaultRegistry mgr @ ''/'' @ dm @ ''/'' @ rest])
   \<and> (CHR ''/'' \<notin> set dm \<and> (CHR ''.'' \<in> set dm \<or> CHR '':'' \<in> set dm) \<longrightarrow>
      LookupImageReferences mgr (dm @ ''/'' @ rest) =
        [dm @ ''/''
         @ (if dm = DefaultRegistry mgr \<and> CHR ''/'' \<notin> set rest
            then DefaultNamespace mgr @ ''/'' @ rest else rest)])"
proof (intro conjI impI)
  assume "CHR ''/'' \<notin> set ref"
  then show "LookupImageReferences mgr ref =
        map (\<lambda>reg. path_Join [reg, ref]) (RegistryMirrors mgr)
        @ [DefaultRegistry mgr @ ''/'' @ DefaultNamespace mgr @ ''/'' @ ref]"
    by (simp add: LookupImageReferences_def extract_domain_plain foldl_snoc_map
        ContainsAny_slash)
next
  assume "CHR ''/'' \<notin> set dm \<and> CHR ''.'' \<notin> set dm \<and> CHR '':'' \<notin> set dm"
  then have "extract_domain (dm @ ''/'' @ rest) = ([], dm @ ''/'' @ rest)"
    by (intro extract_domain_path) simp_all
  then show "LookupImageReferences mgr (dm @ ''/'' @ rest) =
        map (\<lambda>reg. path_Join [reg, dm @ ''/'' @ rest]) (RegistryMirrors mgr)
        @ [DefaultRegistry mgr @ ''/'' @ dm @ ''/'' @ rest]"
    by (simp add: LookupImageReferences_def foldl_snoc_map ContainsAny_slash)
next
  assume a: "CHR ''/'' \<notin> set dm \<and> (CHR ''.'' \<in> set dm \<or> CHR '':'' \<in> set dm)"
  then have ex: "extract_domain (dm @ ''/'' @ rest) = (dm, rest)"
    by (intro extract_domain_explicit) simp_all
  from a have "dm \<noteq> []" by auto
  with ex show "LookupImageReferences mgr (dm @ ''/'' @ rest) =
        [dm @ ''/''
         @ (if dm = DefaultRegistry mgr \<and> CHR ''/'' \<notin> set rest
            then DefaultNamespace mgr @ ''/'' @ rest else rest)]"
    by (simp add: LookupImageReferences_def ContainsAny_slash)
qed

text \<open>
  The example of the specification: \<open>ubuntu\<close> with the mirrors \<open>m1\<close> and \<open>m2\<close>, the
  default registry \<open>reg.example\<close> and the default namespace \<open>library\<close>. With the same
  manager, \<open>ns/ubuntu\<close> has no explicit domain and keeps its path; \<open>reg.example/ubuntu\<close>
  names the default registry and gets the namespace, without mirror candidates;
  \<open>other.io:5000/ubuntu\<close> names another registry and is left as it is.
\<close>

theorem LookupImageReferences_order_witness:
  "LookupImageReferences ex_mgr ''ubuntu''
     = [''m1/ubuntu'', ''m2/ubuntu'', ''reg.example/library/ubuntu'']
   \<and> LookupImageReferences ex_mgr ''ns/ubuntu''
     = [''m1/ns/ubuntu'', ''m2/ns/ubuntu'', ''reg.example/ns/ubuntu'']
   \<and> LookupImageReferences ex_mgr ''reg.example/ubuntu'' = [''reg.example/library/ubuntu'']
   \<and> LookupImageReferences ex_mgr ''other.io:5000/ubuntu'' = [''other.io:5000/ubuntu'']"
proof -
  have A: "LookupImageReferences ex_mgr ''ubuntu''
             = [''m1/ubuntu'', ''m2/ubuntu'', ''reg.example/library/ubuntu'']"
    using LookupImageReferences_order[where ref = "''ubuntu''" and mgr = ex_mgr]
    by (simp add: ex_mgr_def path_Join_def path_Clean_def clean_step_def)
  have B: "LookupImageReferences ex_mgr ''ns/ubuntu''
             = [''m1/ns/ubuntu'', ''m2/ns/ubuntu'', ''reg.example/ns/ubuntu'']"
    using LookupImageReferences_order[where dm = "''ns''" and rest = "''ubuntu''"
        and mgr = ex_mgr]
    by (simp add: ex_mgr_def path_Join_def path_Clean_def clean_step_def)
  have C: "LookupImageReferences ex_mgr ''reg.example/ubuntu''
             = [''reg.example/library/ubuntu'']"
    using LookupImageReferences_order[where dm = "''reg.example''" and rest = "''ubuntu''"
        and mgr = ex_mgr]
    by (simp add: ex_mgr_def)
  have D: "LookupImageReferences ex_mgr ''other.io:5000/ubuntu'' = [''other.io:5000/ubuntu'']"
    using LookupImageReferences_order[where dm = "''other.io:5000''" and rest = "''ubuntu''"
        and mgr = ex_mgr]
    by (simp add: ex_mgr_def)
  from A B C D show ?thesis by simp
qed

section \<open>Reference resolution\<close>

lemma HasPrefix_prefix: "HasPrefix s p = prefix p s"
  by (auto simp: HasPrefix_def prefix_def) (metis append_eq_conv_conj)

text \<open>
  C1. \<open>CheckReference\<close> parses the input and searches in two passes: the parsed input
  unchanged, and, on a not-found miss, the input qualified with the default registry
  and namespace, only if that changed the string (otherwise the not-found error is
  returned). On a hit in either pass the primary reference is the first primary
  reference of the id when the matched reference is name-only or its string is a
  prefix of the id (\<open>NotFound\<close> when the id has none), and the primary reference of
  the matched reference otherwise.
\<close>

theorem CheckReference_two_pass:
  "CheckReference mgr d w s =
     (case Parse d s of
        Inl err \<Rightarrow> Inl err
      | Inr parsed \<Rightarrow>
          (case two_pass_search mgr d w s parsed of
             Inl err \<Rightarrow> Inl err
           | Inr (imgid, matched) \<Rightarrow> primary_counterpart d w imgid matched))"
  by (auto simp: CheckReference_def two_pass_search_def primary_counterpart_def
      HasPrefix_prefix Let_def hd_conv_nth
      split: sum.splits list.splits prod.splits)

text \<open>
  In the example world \<open>ubuntu:latest\<close> misses in the first pass and is found in the
  second, under its qualified name.
\<close>

theorem CheckReference_two_pass_witness:
  "Search store_deps ex_world (Reference ''ubuntu'' (Some ''latest'') None) = Inl ErrNotfound
   \<and> CheckReference ex_mgr store_deps ex_world ''ubuntu:latest''
       = Inr (''sha256:aa'', ubuntu_latest, ubuntu_latest)"
proof -
  have "CheckReference ex_mgr store_deps ex_world ''ubuntu:latest'' =
     (case Parse store_deps ''ubuntu:latest'' of
        Inl err \<Rightarrow> Inl err
      | Inr parsed \<Rightarrow>
          (case two_pass_search ex_mgr store_deps ex_world ''ubuntu:latest'' parsed of
             Inl err \<Rightarrow> Inl err
           | Inr (imgid, matched) \<Rightarrow> primary_counterpart store_deps ex_world imgid matched))"
    by (rule CheckReference_two_pass)
  also have "\<dots> = Inr (''sha256:aa'', ubuntu_latest, ubuntu_latest)"
    by code_simp
  finally have "CheckReference ex_mgr store_deps ex_world ''ubuntu:latest''
       = Inr (''sha256:aa'', ubuntu_latest, ubuntu_latest)" .
  moreover have
    "Search store_deps ex_world (Reference ''ubuntu'' (Some ''latest'') None) = Inl ErrNotfound"
    by code_simp
  ultimately show ?thesis by simp
qed

section \<open>Listing the references of an image\<close>

lemma store_primary_set:
  "set (store_GetPrimaryReferences st imgid) = {r. (r, imgid, r) \<in> set (st_refs st)}"
  by (auto simp: store_GetPrimaryReferences_def image_iff)

lemma store_deps_GetPrimaryReferences:
  "GetPrimaryReferences store_deps w = store_GetPrimaryReferences (w_store w)"
  by (simp add: store_deps_def)

lemma store_AddReference_primary:
  assumes "store_AddReference st imgid cand stored = (res, st')" and "r \<noteq> stored"
  shows "(r, i, r) \<in> set (st_refs st') \<longleftrightarrow> (r, i, r) \<in> set (st_refs st)"
  using assms
  by (auto simp: store_AddReference_def image_iff split: option.splits prod.splits if_splits)

lemma store_AddReference_searchable:
  assumes "store_AddReference st imgid cand stored = (None, st')" and "cand \<noteq> stored"
    and "(stored, imgid, stored) \<notin> set (st_refs st)"
  shows "(stored, imgid, stored) \<notin> set (st_refs st')"
  using assms
  by (auto simp: store_AddReference_def image_iff split: option.splits prod.splits if_splits)

text \<open>
  The digest alias that \<open>addReferenceIntoStore\<close> derives for a tagged reference does
  not become a primary reference.
\<close>

lemma derived_alias_not_primary:
  assumes tagged: "reference_IsNameTagged ref"
    and add: "addReferenceIntoStore store_deps sw imgid ref dig = (None, sw')"
    and fresh: "(reference_WithDigest ref dig, imgid, reference_WithDigest ref dig)
                  \<notin> set (st_refs (w_store sw))"
  shows "(reference_WithDigest ref dig, imgid, reference_WithDigest ref dig)
           \<notin> set (st_refs (w_store sw'))"
proof -
  let ?dr = "reference_WithDigest ref dig"
  have ne: "?dr \<noteq> ref"
    using tagged by (cases ref) (auto simp: reference_IsNameTagged_def reference_WithDigest_def)
  obtain r1 st1 where a1: "store_AddReference (w_store sw) imgid ref ref = (r1, st1)"
    by (cases "store_AddReference (w_store sw) imgid ref ref") auto
  have p1: "(?dr, imgid, ?dr) \<notin> set (st_refs st1)"
    using store_AddReference_primary[OF a1 ne] fresh by simp
  show ?thesis
  proof (cases r1)
    case (Some e)
    with a1 add show ?thesis
      by (simp add: addReferenceIntoStore_def store_deps_def on_store_def)
  next
    case None
    show ?thesis
    proof (cases "store_Search st1 ?dr")
      case (Inr found)
      with a1 None add tagged p1 show ?thesis
        by (auto simp: addReferenceIntoStore_def store_deps_def on_store_def Let_def)
    next
      case (Inl err)
      show ?thesis
      proof (cases "IsNotfound err")
        case False
        with Inl a1 None add tagged p1 show ?thesis
          by (auto simp: addReferenceIntoStore_def store_deps_def on_store_def Let_def)
      next
        case True
        obtain r2 st2 where a2: "store_AddReference st1 imgid ref ?dr = (r2, st2)"
          by (cases "store_AddReference st1 imgid ref ?dr") auto
        with True Inl a1 None add tagged have "r2 = None" and "w_store sw' = st2"
          by (auto simp: addReferenceIntoStore_def store_deps_def on_store_def Let_def)
        with a2 store_AddReference_searchable[of st1 imgid ref ?dr st2] ne p1
        show ?thesis by auto
      qed
    qed
  qed
qed

text \<open>
  C10. \<open>ListReferences\<close> never returns an error: for every store it returns what the
  store gives as the primary references of the digest. On the store of the
  specification these are exactly the references registered as primary for the
  digest, so a searchable reference is never among them; in particular the
  \<open>name@digest\<close> alias that \<open>addReferenceIntoStore\<close> derives for a tagged reference is
  not in the result.
\<close>

theorem ListReferences_primary_only:
  "ListReferences d w imgid = Inr (GetPrimaryReferences d w imgid)
   \<and> (\<exists>rs. ListReferences store_deps sw imgid = Inr rs
         \<and> set rs = {r. (r, imgid, r) \<in> set (st_refs (w_store sw))})
   \<and> (reference_IsNameTagged ref
        \<and> addReferenceIntoStore store_deps sw imgid ref dig = (None, sw')
        \<and> (reference_WithDigest ref dig, imgid, reference_WithDigest ref dig)
             \<notin> set (st_refs (w_store sw))
      \<longrightarrow> (\<exists>rs. ListReferences store_deps sw' imgid = Inr rs
             \<and> reference_WithDigest ref dig \<notin> set rs))"
  using derived_alias_not_primary[of ref sw imgid dig sw']
  by (auto simp: ListReferences_def store_deps_GetPrimaryReferences store_primary_set)

text \<open>
  In the example world the image \<open>sha256:aa\<close> has one primary and two searchable
  references; registering \<open>nginx:1.0\<close> for a new image adds the tag and its digest
  alias, and only the tag is listed.
\<close>

theorem ListReferences_primary_only_witness:
  "ListReferences store_deps ex_world ''sha256:aa'' = Inr [ubuntu_latest]
   \<and> GetReferences store_deps ex_world ''sha256:aa''
       = [ubuntu_latest, ubuntu_digest, alias_local]
   \<and> fst (addReferenceIntoStore store_deps ex_world ''sha256:dd'' nginx_tag ''sha256:m9'')
       = None
   \<and> GetReferences store_deps
         (snd (addReferenceIntoStore store_deps ex_world ''sha256:dd'' nginx_tag ''sha256:m9''))
         ''sha256:dd''
       = [nginx_tag, reference_WithDigest nginx_tag ''sha256:m9'']
   \<and> reference_WithDigest nginx_tag ''sha256:m9''
       \<notin> set (GetPrimaryReferences store_deps
                (snd (addReferenceIntoStore store_deps ex_world ''sha256:dd'' nginx_tag
                        ''sha256:m9''))
                ''sha256:dd'')"
proof -
  let ?add = "addReferenceIntoStore store_deps ex_world ''sha256:dd'' nginx_tag ''sha256:m9''"
  note T = ListReferences_primary_only
    [where d = store_deps and w = ex_world and imgid = "''sha256:dd''" and sw = ex_world
       and ref = nginx_tag and dig = "''sha256:m9''" and sw' = "snd ?add"]
  note U = ListReferences_primary_only
    [where d = store_deps and w = ex_world and imgid = "''sha256:aa''"]
  have none: "fst ?add = None" by code_simp
  then have hyp2: "?add = (None, snd ?add)" by (metis prod.collapse)
  have hyp1: "reference_IsNameTagged nginx_tag" by code_simp
  have hyp3: "(reference_WithDigest nginx_tag ''sha256:m9'', ''sha256:dd'',
               reference_WithDigest nginx_tag ''sha256:m9'')
              \<notin> set (st_refs (w_store ex_world))"
    by code_simp
  have "ListReferences store_deps ex_world ''sha256:aa''
          = Inr (GetPrimaryReferences store_deps ex_world ''sha256:aa'')"
    using U by blast
  also have "\<dots> = Inr [ubuntu_latest]" by code_simp
  finally have a: "ListReferences store_deps ex_world ''sha256:aa'' = Inr [ubuntu_latest]" .
  have b: "GetReferences store_deps ex_world ''sha256:aa''
             = [ubuntu_latest, ubuntu_digest, alias_local]"
    by code_simp
  have c: "GetReferences store_deps (snd ?add) ''sha256:dd''
             = [nginx_tag, reference_WithDigest nginx_tag ''sha256:m9'']"
    by code_simp
  from T hyp1 hyp2 hyp3
  obtain rs where "ListReferences store_deps (snd ?add) ''sha256:dd'' = Inr rs"
    and "reference_WithDigest nginx_tag ''sha256:m9'' \<notin> set rs"
    by blast
  then have e: "reference_WithDigest nginx_tag ''sha256:m9''
       \<notin> set (GetPrimaryReferences store_deps (snd ?add) ''sha256:dd'')"
    by (simp add: ListReferences_def)
  from a b none c e show ?thesis by simp
qed

section \<open>Tagging\<close>



section \<open>History reconstruction\<close>

lemma non_empty_before_Suc:
  "i < length hist \<Longrightarrow>
   non_empty_before hist (Suc i) =
     non_empty_before hist i + (if h_EmptyLayer (rev hist ! i) then 0 else 1)"
  by (simp add: non_empty_before_def take_Suc_conv_app_nth)

lemma non_empty_before_le:
  "non_empty_before hist i \<le> length (filter (\<lambda>h. \<not> h_EmptyLayer h) hist)"
proof -
  have "length (filter (\<lambda>h. \<not> h_EmptyLayer h) (take i (rev hist)))
          \<le> length (filter (\<lambda>h. \<not> h_EmptyLayer h) (take i (rev hist) @ drop i (rev hist)))"
    unfolding filter_append by simp
  also have "\<dots> = length (filter (\<lambda>h. \<not> h_EmptyLayer h) (rev hist))" by simp
  also have "\<dots> = length (filter (\<lambda>h. \<not> h_EmptyLayer h) hist)"
    by (simp add: rev_filter[symmetric])
  finally show ?thesis by (simp add: non_empty_before_def)
qed

lemma non_empty_before_all:
  "non_empty_before hist (length hist) = length (filter (\<lambda>h. \<not> h_EmptyLayer h) hist)"
  by (simp add: non_empty_before_def rev_filter[symmetric])

lemma history_loop_spec:
  assumes info: "\<forall>l \<in> set layers. info (desc_Digest l) = Inr (size_of (desc_Digest l))"
  shows "i \<le> length hist \<Longrightarrow> length history = length hist \<Longrightarrow>
         non_empty_before hist i \<le> length layers \<Longrightarrow>
         j = int (length layers) - 1 - int (non_empty_before hist i) \<Longrightarrow>
         history_loop info dgst layers hist i j history =
           (if length (filter (\<lambda>h. \<not> h_EmptyLayer h) hist) > length layers
            then Inl too_few_layers
            else Inr (take i history @ map (expected_item size_of dgst layers hist) [i..<length hist],
                      int (length layers) - 1
                        - int (length (filter (\<lambda>h. \<not> h_EmptyLayer h) hist))))"
proof (induction "length hist - i" arbitrary: i j history)
  case 0
  then have "i = length hist" by simp
  with 0 show ?case
    by (subst history_loop.simps) (simp add: non_empty_before_all)
next
  case (Suc n)
  let ?m = "length (filter (\<lambda>h. \<not> h_EmptyLayer h) hist)"
  let ?k = "length layers"
  from Suc.hyps(2) have lt: "i < length hist" by simp
  have hidx: "hist ! (length hist - i - 1) = rev hist ! i"
    using lt by (simp add: rev_nth)
  have step: "non_empty_before hist (Suc i) =
     non_empty_before hist i + (if h_EmptyLayer (rev hist ! i) then 0 else 1)"
    using lt by (rule non_empty_before_Suc)
  have le: "non_empty_before hist (Suc i) \<le> ?m" by (rule non_empty_before_le)
  have n: "n = length hist - Suc i" using Suc.hyps(2) by simp
  have upt: "[i..<length hist] = i # [Suc i..<length hist]"
    using lt by (simp add: upt_conv_Cons)
  show ?case
  proof (cases "h_EmptyLayer (rev hist ! i)")
    case True
    let ?item = "expected_item size_of dgst layers hist i"
    have IH: "history_loop info dgst layers hist (Suc i) j (history[i := ?item]) =
           (if ?m > ?k then Inl too_few_layers
            else Inr (take (Suc i) (history[i := ?item])
                        @ map (expected_item size_of dgst layers hist) [Suc i..<length hist],
                      int ?k - 1 - int ?m))"
      using Suc.prems lt step True by (intro Suc.hyps(1)[OF n]) simp_all
    have tk: "take (Suc i) (history[i := ?item]) = take i history @ [?item]"
      using lt Suc.prems(2) by (simp add: take_Suc_conv_app_nth)
    have "history_loop info dgst layers hist i j history
            = history_loop info dgst layers hist (Suc i) j (history[i := ?item])"
      using lt True hidx
      by (subst history_loop.simps) (auto simp: expected_item_def Let_def)
    with IH tk upt show ?thesis by simp
  next
    case False
    show ?thesis
    proof (cases "j < 0")
      case True
      with Suc.prems have "non_empty_before hist i = ?k" by simp
      with step False le have "?m > ?k" by simp
      moreover have "history_loop info dgst layers hist i j history = Inl too_few_layers"
        using lt True False hidx
        by (subst history_loop.simps) (auto simp: too_few_layers_def Let_def)
      ultimately show ?thesis by simp
    next
      case jge: False
      with Suc.prems have nb: "non_empty_before hist i < ?k" by simp
      have natj: "nat j = ?k - 1 - non_empty_before hist i"
        using Suc.prems nb by simp
      then have "layers ! nat j \<in> set layers" using nb by simp
      with info have inf: "info (desc_Digest (layers ! nat j))
                             = Inr (size_of (desc_Digest (layers ! nat j)))" by blast
      let ?item = "expected_item size_of dgst layers hist i"
      have IH: "history_loop info dgst layers hist (Suc i) (j - 1) (history[i := ?item]) =
           (if ?m > ?k then Inl too_few_layers
            else Inr (take (Suc i) (history[i := ?item])
                        @ map (expected_item size_of dgst layers hist) [Suc i..<length hist],
                      int ?k - 1 - int ?m))"
        using Suc.prems lt step False nb by (intro Suc.hyps(1)[OF n]) simp_all
      have tk: "take (Suc i) (history[i := ?item]) = take i history @ [?item]"
        using lt Suc.prems(2) by (simp add: take_Suc_conv_app_nth)
      have "history_loop info dgst layers hist i j history
            = history_loop info dgst layers hist (Suc i) (j - 1) (history[i := ?item])"
        using lt False jge hidx inf natj
        by (subst history_loop.simps) (auto simp: expected_item_def Let_def)
      with IH tk upt show ?thesis by simp
    qed
  qed
qed

text \<open>
  C2. For an image whose history has \<open>n\<close> entries and whose manifest has \<open>k\<close> layers,
  with the content store reporting a size for every layer: \<open>ImageHistory\<close> fails
  when the history has more non-empty entries than the manifest has layers (the
  pointer would go below 0) and when it has fewer (the pointer does not end at -1);
  otherwise it returns exactly \<open>n\<close> items, top-most first, each non-empty item with
  the size of the layer at the pointer walked down from \<open>k - 1\<close>, each empty item with
  size 0, the item at index 0 with the config digest as id and every other item with
  the placeholder.
\<close>

theorem ImageHistory_walk:
  assumes fetch: "fetchContainerdImage mgr d w idOrRef = Inr img"
    and cfg: "img_Config img = Inr dgst"
    and oci: "img_OciImage img = Inr ociImage"
    and man: "getManifest img = Inr layers"
    and info: "\<forall>l \<in> set layers. img_Info img (desc_Digest l) = Inr (size_of (desc_Digest l))"
  shows "ImageHistory mgr d w idOrRef =
     (let hist = oci_History ociImage;
          m = length (filter (\<lambda>h. \<not> h_EmptyLayer h) hist)
      in if m > length layers then Inl too_few_layers
         else if m < length layers then Inl too_many_layers
         else Inr (map (expected_item size_of dgst layers hist) [0..<length hist]))"
proof -
  let ?hist = "oci_History ociImage"
  let ?m = "length (filter (\<lambda>h. \<not> h_EmptyLayer h) ?hist)"
  have loop: "history_loop (img_Info img) dgst layers ?hist 0 (int (length layers) - 1)
                (replicate (length ?hist) zero_item) =
           (if ?m > length layers then Inl too_few_layers
            else Inr (map (expected_item size_of dgst layers ?hist) [0..<length ?hist],
                      int (length layers) - 1 - int ?m))"
    using history_loop_spec[OF info, of 0 ?hist "replicate (length ?hist) zero_item"
        "int (length layers) - 1" dgst]
    by (simp add: non_empty_before_def)
  show ?thesis
    using fetch cfg oci man loop
    by (auto simp: ImageHistory_def history_of_image_def Let_def too_many_layers_def)
qed

text \<open>
  The example of the specification: three history entries, the middle one empty, and
  two manifest layers of sizes 100 and 200.
\<close>

theorem ImageHistory_walk_witness:
  "ImageHistory ex_mgr store_deps ex_world ''ubuntu:latest'' =
     Inr [\<lparr>Created = 3, CreatedBy = ''COPY app'', Author = ''dev'', Comment = [],
           EmptyLayer = False, ID = ''sha256:aa'', Size = 200\<rparr>,
          \<lparr>Created = 2, CreatedBy = ''CMD sh'', Author = ''dev'', Comment = [],
           EmptyLayer = True, ID = ''<missing>'', Size = 0\<rparr>,
          \<lparr>Created = 1, CreatedBy = ''ADD rootfs'', Author = ''dev'', Comment = [],
           EmptyLayer = False, ID = ''<missing>'', Size = 100\<rparr>]"
proof -
  let ?f = "fetchContainerdImage ex_mgr store_deps ex_world ''ubuntu:latest''"
  let ?img = "projr ?f"
  let ?sz = "\<lambda>dg. if dg = ''sha256:l0'' then 100 else (200::int)"
  have "isl ?f = False" by code_simp
  then have fetch: "?f = Inr ?img" by (cases ?f) simp_all
  have cfg: "img_Config ?img = Inr ''sha256:aa''" by code_simp
  have oci: "img_OciImage ?img = Inr (ex_oci 10)" by code_simp
  have man: "getManifest ?img = Inr ex_layers" by code_simp
  have info: "\<forall>l \<in> set ex_layers. img_Info ?img (desc_Digest l) = Inr (?sz (desc_Digest l))"
    by code_simp
  note T = ImageHistory_walk[OF fetch cfg oci man info]
  have "(let hist = oci_History (ex_oci 10);
          m = length (filter (\<lambda>h. \<not> h_EmptyLayer h) hist)
      in if m > length ex_layers then Inl too_few_layers
         else if m < length ex_layers then Inl too_many_layers
         else Inr (map (expected_item ?sz ''sha256:aa'' ex_layers hist) [0..<length hist]))
     = Inr [\<lparr>Created = 3, CreatedBy = ''COPY app'', Author = ''dev'', Comment = [],
           EmptyLayer = False, ID = ''sha256:aa'', Size = 200\<rparr>,
          \<lparr>Created = 2, CreatedBy = ''CMD sh'', Author = ''dev'', Comment = [],
           EmptyLayer = True, ID = ''<missing>'', Size = 0\<rparr>,
          \<lparr>Created = 1, CreatedBy = ''ADD rootfs'', Author = ''dev'', Comment = [],
           EmptyLayer = False, ID = ''<missing>'', Size = 100\<rparr>]"
    by code_simp
  with T show ?thesis by simp
qed

section \<open>Removal\<close>

lemma remove_primary_references_steps:
  "remove_primary_references d imgid refs w = run_steps d (removal_steps d imgid refs) w"
  by (induction refs arbitrary: w)
     (auto simp: removal_steps_def perform_def split: prod.splits option.splits)

lemma run_steps_prefix:
  "run_steps d cs w = (res, w', calls) \<Longrightarrow>
     prefix calls cs \<and> (res = None \<longrightarrow> calls = cs) \<and> (res \<noteq> None \<longrightarrow> calls \<noteq> [])"
  by (induction cs arbitrary: w res w' calls)
     (auto split: prod.splits option.splits)

text \<open>
  C4 (amended). When \<open>RemoveImage\<close> is given an identity-style input (the resolved
  reference is name-only, or its string is a prefix of the id), it refuses exactly
  when \<open>force\<close> is not set and the references of the id, primary and searchable
  together, span more than one locator; it then makes no call. When it proceeds it
  removes each primary reference of the id from the remote store and then from the
  local index, in sequence, and stops at the first failure, which it returns.
\<close>

theorem RemoveImage_identity:
  assumes chk: "CheckReference mgr d w idOrRef = Inr (imgid, namedRef, primaryRef)"
    and ident: "IsNamedOnly d namedRef \<or> HasPrefix imgid (ref_String d namedRef)"
  shows "\<exists>res w1 calls.
           RemoveImage_body d w idOrRef force imgid namedRef primaryRef = (res, w1, calls)
         \<and> fst (RemoveImage mgr d w idOrRef force) = res
         \<and> (res = Some (must_force idOrRef) \<and> calls = [] \<and> w1 = w
              \<longleftrightarrow> \<not> force \<and> \<not> uniqueLocatorReference d (GetReferences d w imgid))
         \<and> (force \<or> uniqueLocatorReference d (GetReferences d w imgid) \<longrightarrow>
               (res, w1, calls)
                 = run_steps d (removal_steps d imgid (GetPrimaryReferences d w imgid)) w
               \<and> prefix calls (removal_steps d imgid (GetPrimaryReferences d w imgid))
               \<and> (res = None \<longrightarrow>
                    calls = removal_steps d imgid (GetPrimaryReferences d w imgid)))"
proof -
  let ?refs = "GetPrimaryReferences d w imgid"
  obtain res w1 calls where
    body: "RemoveImage_body d w idOrRef force imgid namedRef primaryRef = (res, w1, calls)"
    by (cases "RemoveImage_body d w idOrRef force imgid namedRef primaryRef") auto
  have fst: "fst (RemoveImage mgr d w idOrRef force) = res"
    using chk body by (simp add: RemoveImage_def)
  let ?refuse = "\<not> force \<and> \<not> uniqueLocatorReference d (GetReferences d w imgid)"
  have refuse: "?refuse \<Longrightarrow> res = Some (must_force idOrRef) \<and> calls = [] \<and> w1 = w"
    using body ident by (auto simp: RemoveImage_body_def must_force_def)
  have run: "(res, w1, calls) = run_steps d (removal_steps d imgid ?refs) w" if "\<not> ?refuse"
    using that body ident
    by (auto simp: RemoveImage_body_def remove_primary_references_steps)
  have pre: "prefix calls (removal_steps d imgid ?refs)"
    and full: "res = None \<longrightarrow> calls = removal_steps d imgid ?refs"
    and ne: "res \<noteq> None \<longrightarrow> calls \<noteq> []" if "\<not> ?refuse"
    using run_steps_prefix[OF run[OF that, symmetric]] by auto
  have iff: "(res = Some (must_force idOrRef) \<and> calls = [] \<and> w1 = w) \<longleftrightarrow> ?refuse"
    using refuse ne by blast
  have proceed: "force \<or> uniqueLocatorReference d (GetReferences d w imgid) \<longrightarrow>
               (res, w1, calls) = run_steps d (removal_steps d imgid ?refs) w
               \<and> prefix calls (removal_steps d imgid ?refs)
               \<and> (res = None \<longrightarrow> calls = removal_steps d imgid ?refs)"
    using run pre full by blast
  show ?thesis
    by (rule exI[of _ res], rule exI[of _ w1], rule exI[of _ calls])
       (use body fst iff proceed in blast)
qed

text \<open>
  The claim as stated, with the primary references alone deciding, fails in the
  example world: image \<open>sha256:aa\<close> has one primary reference, hence one locator
  among its primary references, but a searchable alias with another locator, and its
  removal by id without \<open>force\<close> is refused.
\<close>

theorem RemoveImage_identity_counterexample:
  "CheckReference ex_mgr store_deps ex_world ''sha256:aa''
     = Inr (''sha256:aa'', Reference ''sha256'' (Some ''aa'') None, ubuntu_latest)
   \<and> HasPrefix ''sha256:aa'' (ref_String store_deps (Reference ''sha256'' (Some ''aa'') None))
   \<and> \<not> (fst (RemoveImage ex_mgr store_deps ex_world ''sha256:aa'' False) \<noteq> None
          \<longleftrightarrow> \<not> uniqueLocatorReference store_deps
                  (GetPrimaryReferences store_deps ex_world ''sha256:aa''))"
  by code_simp

text \<open>
  The example of the specification: image \<open>sha256:cc\<close> has the primary references
  \<open>a.com/repo:t1\<close> and \<open>b.com/repo:t2\<close>; its removal by id fails without \<open>force\<close> and
  removes both with it.
\<close>

theorem RemoveImage_identity_witness:
  "fst (RemoveImage ex_mgr store_deps ex_world ''sha256:cc'' False)
     = Some (must_force ''sha256:cc'')
   \<and> fst (RemoveImage ex_mgr store_deps ex_world ''sha256:cc'' True) = None
   \<and> snd (snd (RemoveImage_body store_deps ex_world ''sha256:cc'' True ''sha256:cc''
                  (Reference ''sha256'' (Some ''cc'') None) repo_t1))
       = [CallClientRemoveImage ''a.com/repo:t1'', CallRemoveReference ''sha256:cc'' repo_t1,
          CallClientRemoveImage ''b.com/repo:t2'', CallRemoveReference ''sha256:cc'' repo_t2]"
proof -
  let ?nr = "Reference ''sha256'' (Some ''cc'') None"
  have chk: "CheckReference ex_mgr store_deps ex_world ''sha256:cc''
               = Inr (''sha256:cc'', ?nr, repo_t1)"
    by code_simp
  have ident: "IsNamedOnly store_deps ?nr \<or> HasPrefix ''sha256:cc'' (ref_String store_deps ?nr)"
    by code_simp
  have multi: "\<not> uniqueLocatorReference store_deps (GetReferences store_deps ex_world ''sha256:cc'')"
    by code_simp
  have steps: "removal_steps store_deps ''sha256:cc''
                 (GetPrimaryReferences store_deps ex_world ''sha256:cc'')
       = [CallClientRemoveImage ''a.com/repo:t1'', CallRemoveReference ''sha256:cc'' repo_t1,
          CallClientRemoveImage ''b.com/repo:t2'', CallRemoveReference ''sha256:cc'' repo_t2]"
    by code_simp
  have ok: "fst (run_steps store_deps
                   (removal_steps store_deps ''sha256:cc''
                      (GetPrimaryReferences store_deps ex_world ''sha256:cc'')) ex_world) = None"
    by code_simp
  from RemoveImage_identity[OF chk ident, of False] multi
  have a: "fst (RemoveImage ex_mgr store_deps ex_world ''sha256:cc'' False)
             = Some (must_force ''sha256:cc'')"
    by auto
  from RemoveImage_identity[OF chk ident, of True]
  obtain res w1 calls where
    body: "RemoveImage_body store_deps ex_world ''sha256:cc'' True ''sha256:cc'' ?nr repo_t1
             = (res, w1, calls)"
    and fst: "fst (RemoveImage ex_mgr store_deps ex_world ''sha256:cc'' True) = res"
    and run: "(res, w1, calls) = run_steps store_deps
                   (removal_steps store_deps ''sha256:cc''
                      (GetPrimaryReferences store_deps ex_world ''sha256:cc'')) ex_world"
    and full: "res = None \<longrightarrow> calls = removal_steps store_deps ''sha256:cc''
                      (GetPrimaryReferences store_deps ex_world ''sha256:cc'')"
    by auto
  from run ok have "res = None" by (metis fst_conv)
  with body fst full steps a show ?thesis by simp
qed

text \<open>
  C5 (amended). When \<open>RemoveImage\<close> is given a specific tagged or digested reference,
  the reference first goes through \<open>TrimTagForDigest\<close>, which drops the tag of a
  reference that carries a digest and keeps the digest. If the result has the string
  of the primary reference, the primary reference is removed from the local index and
  then from the remote store; otherwise an untag event is logged and the result is
  removed from the local index only, with no call to the remote store.
\<close>

theorem RemoveImage_named:
  assumes chk: "CheckReference mgr d w idOrRef = Inr (imgid, namedRef, primaryRef)"
    and named: "\<not> IsNamedOnly d namedRef" "\<not> HasPrefix imgid (ref_String d namedRef)"
  shows "\<exists>res w1 calls.
           RemoveImage_body d w idOrRef force imgid namedRef primaryRef = (res, w1, calls)
         \<and> fst (RemoveImage mgr d w idOrRef force) = res
         \<and> (ref_String d primaryRef = ref_String d (TrimTagForDigest d namedRef) \<longrightarrow>
               (res, w1, calls)
                 = run_steps d [CallRemoveReference imgid primaryRef,
                                CallClientRemoveImage (ref_String d primaryRef)] w)
         \<and> (ref_String d primaryRef \<noteq> ref_String d (TrimTagForDigest d namedRef) \<longrightarrow>
               (res, w1)
                 = RemoveReference d
                     (LogImageEvent d w (ref_String d (TrimTagForDigest d namedRef))
                        (ref_String d (TrimTagForDigest d namedRef)) ''untag'')
                     imgid (TrimTagForDigest d namedRef)
               \<and> calls = [CallLogImageEvent (ref_String d (TrimTagForDigest d namedRef))
                             (ref_String d (TrimTagForDigest d namedRef)) ''untag'',
                           CallRemoveReference imgid (TrimTagForDigest d namedRef)])
         \<and> r_name (reference_TrimTagForDigest r) = r_name r
         \<and> r_digest (reference_TrimTagForDigest r) = r_digest r
         \<and> r_tag (reference_TrimTagForDigest r) = (if r_digest r = None then r_tag r else None)"
proof -
  obtain res w1 calls where
    body: "RemoveImage_body d w idOrRef force imgid namedRef primaryRef = (res, w1, calls)"
    by (cases "RemoveImage_body d w idOrRef force imgid namedRef primaryRef") auto
  have fst: "fst (RemoveImage mgr d w idOrRef force) = res"
    using chk body by (simp add: RemoveImage_def)
  have eq: "ref_String d primaryRef = ref_String d (TrimTagForDigest d namedRef) \<longrightarrow>
               (res, w1, calls)
                 = run_steps d [CallRemoveReference imgid primaryRef,
                                CallClientRemoveImage (ref_String d primaryRef)] w"
    using body named
    by (auto simp: RemoveImage_body_def Let_def perform_def split: prod.splits option.splits)
  have neq: "ref_String d primaryRef \<noteq> ref_String d (TrimTagForDigest d namedRef) \<longrightarrow>
               (res, w1)
                 = RemoveReference d
                     (LogImageEvent d w (ref_String d (TrimTagForDigest d namedRef))
                        (ref_String d (TrimTagForDigest d namedRef)) ''untag'')
                     imgid (TrimTagForDigest d namedRef)
               \<and> calls = [CallLogImageEvent (ref_String d (TrimTagForDigest d namedRef))
                             (ref_String d (TrimTagForDigest d namedRef)) ''untag'',
                           CallRemoveReference imgid (TrimTagForDigest d namedRef)]"
    using body named
    by (auto simp: RemoveImage_body_def Let_def split: prod.splits)
  have trim: "r_name (reference_TrimTagForDigest r) = r_name r
         \<and> r_digest (reference_TrimTagForDigest r) = r_digest r
         \<and> r_tag (reference_TrimTagForDigest r) = (if r_digest r = None then r_tag r else None)"
    by (simp add: reference_TrimTagForDigest_def)
  show ?thesis
    by (rule exI[of _ res], rule exI[of _ w1], rule exI[of _ calls])
       (use body fst eq neq trim in blast)
qed

text \<open>
  The claim as stated, with the digest suffix stripped, fails in the example world:
  image \<open>sha256:bb\<close> was pulled by digest, so its primary reference carries the digest.
  Removing it under that name removes it from the local index and the remote store;
  with the digest stripped the name would differ from the primary reference, and the
  removal would be an untag with no remote call.
\<close>

theorem RemoveImage_named_counterexample:
  "CheckReference ex_mgr store_deps ex_world ''reg.example/library/busybox@sha256:m2''
     = Inr (''sha256:bb'', busybox_digest, busybox_digest)
   \<and> \<not> IsNamedOnly store_deps busybox_digest
   \<and> \<not> HasPrefix ''sha256:bb'' (ref_String store_deps busybox_digest)
   \<and> snd (snd (RemoveImage_body store_deps ex_world ''reg.example/library/busybox@sha256:m2''
                  False ''sha256:bb'' busybox_digest busybox_digest))
       = [CallRemoveReference ''sha256:bb'' busybox_digest,
          CallClientRemoveImage ''reg.example/library/busybox@sha256:m2'']
   \<and> snd (snd (claimed_named_removal store_deps strip_digest ex_world ''sha256:bb''
                  busybox_digest busybox_digest))
       = [CallLogImageEvent ''reg.example/library/busybox'' ''reg.example/library/busybox''
            ''untag'',
          CallRemoveReference ''sha256:bb'' (Reference ''reg.example/library/busybox'' None None)]
   \<and> RemoveImage_body store_deps ex_world ''reg.example/library/busybox@sha256:m2''
         False ''sha256:bb'' busybox_digest busybox_digest
       \<noteq> claimed_named_removal store_deps strip_digest ex_world ''sha256:bb''
           busybox_digest busybox_digest"
proof -
  have a: "CheckReference ex_mgr store_deps ex_world ''reg.example/library/busybox@sha256:m2''
     = Inr (''sha256:bb'', busybox_digest, busybox_digest)"
    by code_simp
  have b: "\<not> IsNamedOnly store_deps busybox_digest" by code_simp
  have c: "\<not> HasPrefix ''sha256:bb'' (ref_String store_deps busybox_digest)" by code_simp
  have e: "snd (snd (RemoveImage_body store_deps ex_world
                  ''reg.example/library/busybox@sha256:m2''
                  False ''sha256:bb'' busybox_digest busybox_digest))
       = [CallRemoveReference ''sha256:bb'' busybox_digest,
          CallClientRemoveImage ''reg.example/library/busybox@sha256:m2'']"
    by code_simp
  have f: "snd (snd (claimed_named_removal store_deps strip_digest ex_world ''sha256:bb''
                  busybox_digest busybox_digest))
       = [CallLogImageEvent ''reg.example/library/busybox'' ''reg.example/library/busybox''
            ''untag'',
          CallRemoveReference ''sha256:bb'' (Reference ''reg.example/library/busybox'' None None)]"
    by code_simp
  from e f have g: "RemoveImage_body store_deps ex_world
         ''reg.example/library/busybox@sha256:m2''
         False ''sha256:bb'' busybox_digest busybox_digest
       \<noteq> claimed_named_removal store_deps strip_digest ex_world ''sha256:bb''
           busybox_digest busybox_digest"
    by auto
  from a b c e f g show ?thesis by blast
qed

text \<open>
  In the example world the alias with the other locator is untagged, and
  \<open>ubuntu:latest\<close>, the primary reference itself, is removed locally and remotely.
\<close>

theorem RemoveImage_named_witness:
  "fst (RemoveImage ex_mgr store_deps ex_world ''localhost:5000/ubuntu:latest'' False) = None
   \<and> snd (snd (RemoveImage_body store_deps ex_world ''localhost:5000/ubuntu:latest'' False
                  ''sha256:aa'' alias_local ubuntu_latest))
       = [CallLogImageEvent ''localhost:5000/ubuntu:latest'' ''localhost:5000/ubuntu:latest''
            ''untag'',
          CallRemoveReference ''sha256:aa'' alias_local]
   \<and> fst (RemoveImage ex_mgr store_deps ex_world ''ubuntu:latest'' False) = None
   \<and> snd (snd (RemoveImage_body store_deps ex_world ''ubuntu:latest'' False
                  ''sha256:aa'' ubuntu_latest ubuntu_latest))
       = [CallRemoveReference ''sha256:aa'' ubuntu_latest,
          CallClientRemoveImage ''reg.example/library/ubuntu:latest'']"
proof -
  have chk1: "CheckReference ex_mgr store_deps ex_world ''localhost:5000/ubuntu:latest''
                = Inr (''sha256:aa'', alias_local, ubuntu_latest)"
    by code_simp
  have n1: "\<not> IsNamedOnly store_deps alias_local"
    and n2: "\<not> HasPrefix ''sha256:aa'' (ref_String store_deps alias_local)"
    by code_simp+
  have trim1: "TrimTagForDigest store_deps alias_local = alias_local" by code_simp
  have ne: "ref_String store_deps ubuntu_latest \<noteq> ref_String store_deps alias_local"
    by code_simp
  have str1: "ref_String store_deps alias_local = ''localhost:5000/ubuntu:latest''"
    by code_simp
  have ok1: "fst (RemoveReference store_deps
                (LogImageEvent store_deps ex_world ''localhost:5000/ubuntu:latest''
                   ''localhost:5000/ubuntu:latest'' ''untag'')
                ''sha256:aa'' alias_local) = None"
    by code_simp
  note T1 = RemoveImage_named[OF chk1 n1 n2, where force = False and r = alias_local]
  from T1 obtain res w1 calls where
    b1: "RemoveImage_body store_deps ex_world ''localhost:5000/ubuntu:latest'' False
           ''sha256:aa'' alias_local ubuntu_latest = (res, w1, calls)"
    and f1: "fst (RemoveImage ex_mgr store_deps ex_world ''localhost:5000/ubuntu:latest'' False)
               = res"
    and other: "ref_String store_deps ubuntu_latest
                  \<noteq> ref_String store_deps (TrimTagForDigest store_deps alias_local) \<longrightarrow>
               (res, w1)
                 = RemoveReference store_deps
                     (LogImageEvent store_deps ex_world
                        (ref_String store_deps (TrimTagForDigest store_deps alias_local))
                        (ref_String store_deps (TrimTagForDigest store_deps alias_local))
                        ''untag'')
                     ''sha256:aa'' (TrimTagForDigest store_deps alias_local)
               \<and> calls = [CallLogImageEvent
                             (ref_String store_deps (TrimTagForDigest store_deps alias_local))
                             (ref_String store_deps (TrimTagForDigest store_deps alias_local))
                             ''untag'',
                           CallRemoveReference ''sha256:aa''
                             (TrimTagForDigest store_deps alias_local)]"
    by blast
  from other ne have r1: "(res, w1) = RemoveReference store_deps
                (LogImageEvent store_deps ex_world ''localhost:5000/ubuntu:latest''
                   ''localhost:5000/ubuntu:latest'' ''untag'')
                ''sha256:aa'' alias_local"
    and c1: "calls = [CallLogImageEvent ''localhost:5000/ubuntu:latest''
                        ''localhost:5000/ubuntu:latest'' ''untag'',
                      CallRemoveReference ''sha256:aa'' alias_local]"
    unfolding trim1 str1 by simp_all
  from r1 ok1 have "res = None" by (metis fst_conv)
  with b1 f1 c1 have A:
    "fst (RemoveImage ex_mgr store_deps ex_world ''localhost:5000/ubuntu:latest'' False) = None
     \<and> snd (snd (RemoveImage_body store_deps ex_world ''localhost:5000/ubuntu:latest'' False
                  ''sha256:aa'' alias_local ubuntu_latest))
       = [CallLogImageEvent ''localhost:5000/ubuntu:latest'' ''localhost:5000/ubuntu:latest''
            ''untag'',
          CallRemoveReference ''sha256:aa'' alias_local]"
    by simp
  have chk2: "CheckReference ex_mgr store_deps ex_world ''ubuntu:latest''
                = Inr (''sha256:aa'', ubuntu_latest, ubuntu_latest)"
    by code_simp
  have m1: "\<not> IsNamedOnly store_deps ubuntu_latest"
    and m2: "\<not> HasPrefix ''sha256:aa'' (ref_String store_deps ubuntu_latest)"
    by code_simp+
  have trim2: "TrimTagForDigest store_deps ubuntu_latest = ubuntu_latest" by code_simp
  have run2: "run_steps store_deps
                [CallRemoveReference ''sha256:aa'' ubuntu_latest,
                 CallClientRemoveImage (ref_String store_deps ubuntu_latest)] ex_world
              = (None, fst (snd (run_steps store_deps
                [CallRemoveReference ''sha256:aa'' ubuntu_latest,
                 CallClientRemoveImage (ref_String store_deps ubuntu_latest)] ex_world)),
                 [CallRemoveReference ''sha256:aa'' ubuntu_latest,
                  CallClientRemoveImage ''reg.example/library/ubuntu:latest''])"
  proof -
    have "fst (run_steps store_deps
                [CallRemoveReference ''sha256:aa'' ubuntu_latest,
                 CallClientRemoveImage (ref_String store_deps ubuntu_latest)] ex_world) = None"
      by code_simp
    moreover have "snd (snd (run_steps store_deps
                [CallRemoveReference ''sha256:aa'' ubuntu_latest,
                 CallClientRemoveImage (ref_String store_deps ubuntu_latest)] ex_world))
           = [CallRemoveReference ''sha256:aa'' ubuntu_latest,
              CallClientRemoveImage ''reg.example/library/ubuntu:latest'']"
      by code_simp
    ultimately show ?thesis by (metis prod.collapse)
  qed
  note T2 = RemoveImage_named[OF chk2 m1 m2, where force = False and r = ubuntu_latest]
  from T2 obtain res2 w2 calls2 where
    b2: "RemoveImage_body store_deps ex_world ''ubuntu:latest'' False
           ''sha256:aa'' ubuntu_latest ubuntu_latest = (res2, w2, calls2)"
    and f2: "fst (RemoveImage ex_mgr store_deps ex_world ''ubuntu:latest'' False) = res2"
    and same: "ref_String store_deps ubuntu_latest
                 = ref_String store_deps (TrimTagForDigest store_deps ubuntu_latest) \<longrightarrow>
               (res2, w2, calls2) = run_steps store_deps
                [CallRemoveReference ''sha256:aa'' ubuntu_latest,
                 CallClientRemoveImage (ref_String store_deps ubuntu_latest)] ex_world"
    by blast
  from same have r2: "(res2, w2, calls2) = run_steps store_deps
                [CallRemoveReference ''sha256:aa'' ubuntu_latest,
                 CallClientRemoveImage (ref_String store_deps ubuntu_latest)] ex_world"
    unfolding trim2 by simp
  from trans[OF r2 run2] have "res2 = None"
    and "calls2 = [CallRemoveReference ''sha256:aa'' ubuntu_latest,
                   CallClientRemoveImage ''reg.example/library/ubuntu:latest'']"
    by simp_all
  with b2 f2 A show ?thesis by simp
qed

lemma removal_steps_no_clear: "\<forall>c \<in> set (removal_steps d imgid refs). \<not> is_clear c"
  by (induction refs) (auto simp: removal_steps_def is_clear_def)

lemma RemoveImage_body_no_clear:
  assumes "RemoveImage_body d w idOrRef force imgid namedRef primaryRef = (res, w1, calls)"
  shows "\<forall>c \<in> set calls. \<not> is_clear c"
proof (cases "IsNamedOnly d namedRef \<or> HasPrefix imgid (ref_String d namedRef)")
  case True
  show ?thesis
  proof (cases "\<not> force \<and> \<not> uniqueLocatorReference d (GetReferences d w imgid)")
    case refuse: True
    with True assms show ?thesis by (auto simp: RemoveImage_body_def)
  next
    case False
    with True assms
    have "run_steps d (removal_steps d imgid (GetPrimaryReferences d w imgid)) w
            = (res, w1, calls)"
      by (auto simp: RemoveImage_body_def remove_primary_references_steps)
    from run_steps_prefix[OF this]
    have "set calls \<subseteq> set (removal_steps d imgid (GetPrimaryReferences d w imgid))"
      by (auto dest: set_mono_prefix)
    with removal_steps_no_clear[of d imgid] show ?thesis by blast
  qed
next
  case False
  with assms show ?thesis
    by (auto simp: RemoveImage_body_def Let_def is_clear_def
        split: prod.splits option.splits if_splits)
qed

text \<open>
  C7. Once the reference is resolved, whatever branch of the removal runs and whether
  or not it returns an error, the deferred function evicts the cache entry of the
  resolved digest exactly when no primary reference of the digest remains in the world
  the removal leaves; the removal itself never evicts a cache entry, so no entry is
  evicted while a primary reference remains.
\<close>

theorem RemoveImage_deferred_cleanup:
  assumes chk: "CheckReference mgr d w idOrRef = Inr (imgid, namedRef, primaryRef)"
  shows "\<exists>res w1 calls.
           RemoveImage_body d w idOrRef force imgid namedRef primaryRef = (res, w1, calls)
         \<and> (\<forall>c \<in> set calls. \<not> is_clear c)
         \<and> RemoveImage mgr d w idOrRef force =
             (if GetPrimaryReferences d w1 imgid = []
              then (res, ClearCtrdImageInfo d w1 imgid, calls @ [CallClearCtrdImageInfo imgid])
              else (res, w1, calls))"
proof -
  obtain res w1 calls where
    body: "RemoveImage_body d w idOrRef force imgid namedRef primaryRef = (res, w1, calls)"
    by (cases "RemoveImage_body d w idOrRef force imgid namedRef primaryRef") auto
  have nc: "\<forall>c \<in> set calls. \<not> is_clear c"
    using body by (rule RemoveImage_body_no_clear)
  have "RemoveImage mgr d w idOrRef force =
             (if GetPrimaryReferences d w1 imgid = []
              then (res, ClearCtrdImageInfo d w1 imgid, calls @ [CallClearCtrdImageInfo imgid])
              else (res, w1, calls))"
    using chk body by (simp add: RemoveImage_def)
  with body nc show ?thesis by blast
qed

text \<open>
  In the example world with the empty remote store, removing the image pulled by
  digest fails at the remote step, after the local removal: no primary reference is
  left and the cache entry is evicted, although the call returns an error. Untagging
  an alias of \<open>sha256:aa\<close> leaves its primary reference, and nothing is evicted.
\<close>

theorem RemoveImage_deferred_cleanup_witness:
  "fst (RemoveImage ex_mgr store_deps ex_world_offline
          ''reg.example/library/busybox@sha256:m2'' False)
     = Some (ErrorsNew ''image not found in containerd'')
   \<and> snd (snd (RemoveImage ex_mgr store_deps ex_world_offline
                  ''reg.example/library/busybox@sha256:m2'' False))
       = [CallRemoveReference ''sha256:bb'' busybox_digest,
          CallClientRemoveImage ''reg.example/library/busybox@sha256:m2'',
          CallClearCtrdImageInfo ''sha256:bb'']
   \<and> snd (snd (RemoveImage ex_mgr store_deps ex_world ''localhost:5000/ubuntu:latest'' False))
       = [CallLogImageEvent ''localhost:5000/ubuntu:latest'' ''localhost:5000/ubuntu:latest''
            ''untag'',
          CallRemoveReference ''sha256:aa'' alias_local]"
proof -
  let ?s = "''reg.example/library/busybox@sha256:m2''"
  let ?body = "RemoveImage_body store_deps ex_world_offline ?s False ''sha256:bb''
                 busybox_digest busybox_digest"
  have chk: "CheckReference ex_mgr store_deps ex_world_offline ?s
               = Inr (''sha256:bb'', busybox_digest, busybox_digest)"
    by code_simp
  have res: "fst ?body = Some (ErrorsNew ''image not found in containerd'')" by code_simp
  have calls: "snd (snd ?body) = [CallRemoveReference ''sha256:bb'' busybox_digest,
          CallClientRemoveImage ''reg.example/library/busybox@sha256:m2'']"
    by code_simp
  have zero: "GetPrimaryReferences store_deps (fst (snd ?body)) ''sha256:bb'' = []"
    by code_simp
  from RemoveImage_deferred_cleanup[OF chk, of False]
  obtain r w1 cs where b: "?body = (r, w1, cs)"
    and R: "RemoveImage ex_mgr store_deps ex_world_offline ?s False =
             (if GetPrimaryReferences store_deps w1 ''sha256:bb'' = []
              then (r, ClearCtrdImageInfo store_deps w1 ''sha256:bb'',
                    cs @ [CallClearCtrdImageInfo ''sha256:bb''])
              else (r, w1, cs))"
    by blast
  from b res calls zero have "r = Some (ErrorsNew ''image not found in containerd'')"
    and "cs = [CallRemoveReference ''sha256:bb'' busybox_digest,
          CallClientRemoveImage ''reg.example/library/busybox@sha256:m2'']"
    and "GetPrimaryReferences store_deps w1 ''sha256:bb'' = []"
    by simp_all
  with R have A: "fst (RemoveImage ex_mgr store_deps ex_world_offline ?s False)
     = Some (ErrorsNew ''image not found in containerd'')
   \<and> snd (snd (RemoveImage ex_mgr store_deps ex_world_offline ?s False))
       = [CallRemoveReference ''sha256:bb'' busybox_digest,
          CallClientRemoveImage ''reg.example/library/busybox@sha256:m2'',
          CallClearCtrdImageInfo ''sha256:bb'']"
    by simp
  let ?t = "''localhost:5000/ubuntu:latest''"
  let ?body2 = "RemoveImage_body store_deps ex_world ?t False ''sha256:aa''
                  alias_local ubuntu_latest"
  have chk2: "CheckReference ex_mgr store_deps ex_world ?t
                = Inr (''sha256:aa'', alias_local, ubuntu_latest)"
    by code_simp
  have calls2: "snd (snd ?body2) = [CallLogImageEvent ?t ?t ''untag'',
          CallRemoveReference ''sha256:aa'' alias_local]"
    by code_simp
  have some: "GetPrimaryReferences store_deps (fst (snd ?body2)) ''sha256:aa'' \<noteq> []"
    by code_simp
  from RemoveImage_deferred_cleanup[OF chk2, of False]
  obtain r2 w2 cs2 where b2: "?body2 = (r2, w2, cs2)"
    and R2: "RemoveImage ex_mgr store_deps ex_world ?t False =
             (if GetPrimaryReferences store_deps w2 ''sha256:aa'' = []
              then (r2, ClearCtrdImageInfo store_deps w2 ''sha256:aa'',
                    cs2 @ [CallClearCtrdImageInfo ''sha256:aa''])
              else (r2, w2, cs2))"
    by blast
  from b2 calls2 some have "cs2 = [CallLogImageEvent ?t ?t ''untag'',
          CallRemoveReference ''sha256:aa'' alias_local]"
    and "GetPrimaryReferences store_deps w2 ''sha256:aa'' \<noteq> []"
    by simp_all
  with R2 have B: "snd (snd (RemoveImage ex_mgr store_deps ex_world ?t False))
       = [CallLogImageEvent ?t ?t ''untag'', CallRemoveReference ''sha256:aa'' alias_local]"
    by simp
  from A B show ?thesis by simp
qed

section \<open>Listing and filtering\<close>

lemma match_patterns_total:
  "\<forall>p \<in> set patterns. isl (FamiliarMatch d p name) = False \<Longrightarrow>
   match_patterns d patterns name = Inr (matches_some d patterns name)"
  by (induction patterns) (auto simp: matches_some_def split: sum.splits)

lemma filter_loop_total:
  "match_total d patterns names \<Longrightarrow>
   filter_loop d patterns names acc = Inr (acc @ filter (matches_some d patterns) names)"
proof (induction names arbitrary: acc)
  case Nil
  then show ?case by simp
next
  case (Cons n ns)
  then have "match_patterns d patterns n = Inr (matches_some d patterns n)"
    by (intro match_patterns_total) (simp add: match_total_def)
  moreover have "match_total d patterns ns"
    using Cons.prems by (simp add: match_total_def)
  ultimately show ?case using Cons.IH by simp
qed

lemma filterReference_total:
  "patterns \<noteq> [] \<Longrightarrow> match_total d patterns names \<Longrightarrow>
   filterReference d patterns names = Inr (filter (matches_some d patterns) names)"
  by (simp add: filterReference_def filter_loop_total)

lemma in_window_skip:
  "in_window bt st img \<longleftrightarrow>
     \<not> (case bt of None \<Rightarrow> False
         | Some b \<Rightarrow> oci_Created (ci_OCISpec img) = b \<or> oci_Created (ci_OCISpec img) > b)
     \<and> \<not> (case st of None \<Rightarrow> False
           | Some s \<Rightarrow> oci_Created (ci_OCISpec img) = s \<or> oci_Created (ci_OCISpec img) < s)"
  by (auto simp: in_window_def split: option.splits)

lemma list_loop_no_reference:
  "list_loop d w bt st [] imgs acc = Inr (acc @ converted d w (filter (in_window bt st) imgs))"
proof (induction imgs arbitrary: acc)
  case Nil
  then show ?case by (simp add: converted_def)
next
  case (Cons img imgs)
  show ?case
  proof (cases "in_window bt st img")
    case False
    then show ?thesis
      using Cons.IH[of acc] unfolding in_window_skip
      by (auto simp: converted_def)
  next
    case True
    then show ?thesis
      using Cons.IH unfolding in_window_skip
      by (cases "containerdImageToImageInfo d w (ci_ID img)") (auto simp: converted_def)
  qed
qed

lemma converted_Cons:
  "converted d w (img # imgs) =
     (case containerdImageToImageInfo d w (ci_ID img) of
        Inl err \<Rightarrow> [] | Inr imgInfo \<Rightarrow> [imgInfo]) @ converted d w imgs"
  by (simp add: converted_def)

lemma list_loop_reference:
  assumes ne: "patterns \<noteq> []"
  shows "\<forall>imgInfo \<in> set (converted d w (filter (in_window bt st) imgs)).
           match_total d patterns (ii_RepoTags imgInfo @ ii_RepoDigests imgInfo) \<Longrightarrow>
         list_loop d w bt st patterns imgs acc =
           Inr (acc @ map (narrow_entry d patterns)
                        (filter (entry_matches d patterns)
                           (converted d w (filter (in_window bt st) imgs))))"
proof (induction imgs arbitrary: acc)
  case Nil
  then show ?case by (simp add: converted_def)
next
  case (Cons img imgs)
  show ?case
  proof (cases "in_window bt st img")
    case False
    then show ?thesis
      using Cons.IH[of acc] Cons.prems unfolding in_window_skip
      by auto
  next
    case True
    show ?thesis
    proof (cases "containerdImageToImageInfo d w (ci_ID img)")
      case (Inl err)
      with True show ?thesis
        using Cons.IH[of acc] Cons.prems unfolding in_window_skip
        by (auto simp: converted_Cons)
    next
      case (Inr imgInfo)
      from Cons.prems True Inr
      have tot: "match_total d patterns (ii_RepoTags imgInfo @ ii_RepoDigests imgInfo)"
        and rest: "\<forall>i \<in> set (converted d w (filter (in_window bt st) imgs)).
                     match_total d patterns (ii_RepoTags i @ ii_RepoDigests i)"
        by (auto simp: converted_Cons)
      from tot have td: "match_total d patterns (ii_RepoDigests imgInfo)"
        and tt: "match_total d patterns (ii_RepoTags imgInfo)"
        by (auto simp: match_total_def)
      have fd: "filterReference d patterns (ii_RepoDigests imgInfo)
                  = Inr (filter (matches_some d patterns) (ii_RepoDigests imgInfo))"
        by (rule filterReference_total[OF ne td])
      have ft: "filterReference d patterns (ii_RepoTags imgInfo)
                  = Inr (filter (matches_some d patterns) (ii_RepoTags imgInfo))"
        by (rule filterReference_total[OF ne tt])
      have keep: "entry_matches d patterns imgInfo \<longleftrightarrow>
                    filter (matches_some d patterns) (ii_RepoTags imgInfo) \<noteq> []
                    \<or> filter (matches_some d patterns) (ii_RepoDigests imgInfo) \<noteq> []"
        by (auto simp: entry_matches_def filter_empty_conv)
      show ?thesis
      proof (cases "entry_matches d patterns imgInfo")
        case yes: True
        have "list_loop d w bt st patterns (img # imgs) acc
                = list_loop d w bt st patterns imgs (acc @ [narrow_entry d patterns imgInfo])"
          using True Inr ne fd ft yes keep unfolding in_window_skip
          by (auto simp: narrow_entry_def)
        with Cons.IH[OF rest] True Inr yes show ?thesis
          by (simp add: converted_Cons)
      next
        case no: False
        have "list_loop d w bt st patterns (img # imgs) acc
                = list_loop d w bt st patterns imgs acc"
          using True Inr ne fd ft no keep unfolding in_window_skip
          by auto
        with Cons.IH[OF rest] True Inr no show ?thesis
          by (simp add: converted_Cons)
      qed
    qed
  qed
qed

lemma ListImages_unfold:
  assumes valid: "filter_Validate d f acceptedImageFilterTags = None"
    and lb: "length (filter_Get d f ''before'') \<le> 1"
    and ls: "length (filter_Get d f ''since'') \<le> 1"
    and bt: "filter_time mgr d w (filter_Get d f ''before'') = Inr bt"
    and st: "filter_time mgr d w (filter_Get d f ''since'') = Inr st"
  shows "ListImages mgr d w f =
           list_loop d w bt st (filter_Get d f ''reference'') (ListCtrdImageInfo d w) []"
  using assms by (simp add: ListImages_def Let_def)

text \<open>
  C8. For a filter set with accepted keys: \<open>ListImages\<close> fails with \<open>InvalidParam\<close>
  whenever \<open>before\<close> or \<open>since\<close> has more than one value. Otherwise, without a
  reference filter, and with the \<open>before\<close> and \<open>since\<close> images resolved, the result is
  exactly the cached entries whose creation time is strictly before the \<open>before\<close> time
  and strictly after the \<open>since\<close> time. An absent filter gives no bound; a present
  one gives the parsed creation time of the image it names, which is the creation
  time of that image when the time layout reads back what it wrote, so that the
  boundary image itself is outside the window.
\<close>

theorem ListImages_before_since:
  assumes valid: "filter_Validate d f acceptedImageFilterTags = None"
  shows "(length (filter_Get d f ''before'') > 1 \<or> length (filter_Get d f ''since'') > 1 \<longrightarrow>
            (\<exists>err. ListImages mgr d w f = Inl err \<and> IsInvalidParam err))
       \<and> (length (filter_Get d f ''before'') \<le> 1 \<and> length (filter_Get d f ''since'') \<le> 1
            \<and> filter_Get d f ''reference'' = []
            \<and> filter_time mgr d w (filter_Get d f ''before'') = Inr bt
            \<and> filter_time mgr d w (filter_Get d f ''since'') = Inr st \<longrightarrow>
            ListImages mgr d w f
              = Inr (converted d w (filter (in_window bt st) (ListCtrdImageInfo d w))))
       \<and> filter_time mgr d w [] = Inr None
       \<and> (GetImage mgr d w b = Inr imgFilter \<and> time_Parse d (ii_CreatedAt imgFilter) = Inr t \<longrightarrow>
            filter_time mgr d w [b] = Inr (Some t))
       \<and> (CheckReference mgr d w b = Inr (imgid, actualRef, primaryRef)
            \<and> GetCtrdImageInfo d w imgid = Inr img
            \<and> time_Parse d (time_Format d (oci_Created (ci_OCISpec img)))
                = Inr (oci_Created (ci_OCISpec img)) \<longrightarrow>
            filter_time mgr d w [b] = Inr (Some (oci_Created (ci_OCISpec img)))
            \<and> \<not> in_window (Some (oci_Created (ci_OCISpec img))) st img
            \<and> \<not> in_window bt (Some (oci_Created (ci_OCISpec img))) img)"
proof (intro conjI impI)
  assume "length (filter_Get d f ''before'') > 1 \<or> length (filter_Get d f ''since'') > 1"
  then show "\<exists>err. ListImages mgr d w f = Inl err \<and> IsInvalidParam err"
    using valid by (auto simp: ListImages_def Let_def IsInvalidParam_def)
next
  assume a: "length (filter_Get d f ''before'') \<le> 1 \<and> length (filter_Get d f ''since'') \<le> 1
            \<and> filter_Get d f ''reference'' = []
            \<and> filter_time mgr d w (filter_Get d f ''before'') = Inr bt
            \<and> filter_time mgr d w (filter_Get d f ''since'') = Inr st"
  then have "ListImages mgr d w f = list_loop d w bt st [] (ListCtrdImageInfo d w) []"
    using ListImages_unfold[OF valid, of mgr w bt st] by simp
  then show "ListImages mgr d w f
              = Inr (converted d w (filter (in_window bt st) (ListCtrdImageInfo d w)))"
    by (simp add: list_loop_no_reference)
next
  show "filter_time mgr d w [] = Inr None" by (simp add: filter_time_def)
next
  assume "GetImage mgr d w b = Inr imgFilter \<and> time_Parse d (ii_CreatedAt imgFilter) = Inr t"
  then show "filter_time mgr d w [b] = Inr (Some t)" by (simp add: filter_time_def)
next
  assume a: "CheckReference mgr d w b = Inr (imgid, actualRef, primaryRef)
            \<and> GetCtrdImageInfo d w imgid = Inr img
            \<and> time_Parse d (time_Format d (oci_Created (ci_OCISpec img)))
                = Inr (oci_Created (ci_OCISpec img))"
  then show "filter_time mgr d w [b] = Inr (Some (oci_Created (ci_OCISpec img)))"
    by (simp add: filter_time_def GetImage_def containerdImageToImageInfo_def Let_def
        split: prod.splits)
next
  show "\<not> in_window (Some (oci_Created (ci_OCISpec img))) st img"
    by (simp add: in_window_def)
next
  show "\<not> in_window bt (Some (oci_Created (ci_OCISpec img))) img"
    by (simp add: in_window_def)
qed

text \<open>
  In the example world the three images were created at 10, 20 and 30; between
  \<open>ubuntu:latest\<close> and \<open>sha256:cc\<close> lies the image created at 20 alone. Two \<open>before\<close>
  values are refused.
\<close>

theorem ListImages_before_since_witness:
  "ListImages ex_mgr store_deps ex_world
     [(''before'', [''sha256:cc'']), (''since'', [''ubuntu:latest''])]
   = Inr [\<lparr>ii_Architecture = ''amd64'', ii_Config = [], ii_CreatedAt = ''20'',
           ii_ID = ''sha256:bb'', ii_Os = ''linux'',
           ii_RepoDigests = [''reg.example/library/busybox@sha256:m2''], ii_RepoTags = [],
           ii_RootFSType = ''layers'', ii_RootFSLayers = [''sha256:d0'', ''sha256:d1''],
           ii_Size = 300\<rparr>]
   \<and> (\<exists>err. ListImages ex_mgr store_deps ex_world [(''before'', [''sha256:cc'', ''sha256:bb''])]
              = Inl err \<and> IsInvalidParam err)
   \<and> filter_time ex_mgr store_deps ex_world [''sha256:cc''] = Inr (Some 30)
   \<and> filter_time ex_mgr store_deps ex_world [''ubuntu:latest''] = Inr (Some 10)"
proof -
  let ?f = "[(''before'', [''sha256:cc'']), (''since'', [''ubuntu:latest''])]"
  let ?g = "[(''before'', [''sha256:cc'', ''sha256:bb''])]"
  have valid: "filter_Validate store_deps ?f acceptedImageFilterTags = None" by code_simp
  have hyp: "length (filter_Get store_deps ?f ''before'') \<le> 1
             \<and> length (filter_Get store_deps ?f ''since'') \<le> 1
             \<and> filter_Get store_deps ?f ''reference'' = []
             \<and> filter_time ex_mgr store_deps ex_world (filter_Get store_deps ?f ''before'')
                 = Inr (Some 30)
             \<and> filter_time ex_mgr store_deps ex_world (filter_Get store_deps ?f ''since'')
                 = Inr (Some 10)"
    by code_simp
  note T = ListImages_before_since[OF valid, where mgr = ex_mgr and w = ex_world
      and bt = "Some 30" and st = "Some 10"]
  from T hyp have "ListImages ex_mgr store_deps ex_world ?f
              = Inr (converted store_deps ex_world
                       (filter (in_window (Some 30) (Some 10))
                          (ListCtrdImageInfo store_deps ex_world)))"
    by blast
  also have "\<dots> = Inr [\<lparr>ii_Architecture = ''amd64'', ii_Config = [], ii_CreatedAt = ''20'',
           ii_ID = ''sha256:bb'', ii_Os = ''linux'',
           ii_RepoDigests = [''reg.example/library/busybox@sha256:m2''], ii_RepoTags = [],
           ii_RootFSType = ''layers'', ii_RootFSLayers = [''sha256:d0'', ''sha256:d1''],
           ii_Size = 300\<rparr>]"
    by code_simp
  finally have A: "ListImages ex_mgr store_deps ex_world ?f
   = Inr [\<lparr>ii_Architecture = ''amd64'', ii_Config = [], ii_CreatedAt = ''20'',
           ii_ID = ''sha256:bb'', ii_Os = ''linux'',
           ii_RepoDigests = [''reg.example/library/busybox@sha256:m2''], ii_RepoTags = [],
           ii_RootFSType = ''layers'', ii_RootFSLayers = [''sha256:d0'', ''sha256:d1''],
           ii_Size = 300\<rparr>]" .
  have valid2: "filter_Validate store_deps ?g acceptedImageFilterTags = None" by code_simp
  have two: "length (filter_Get store_deps ?g ''before'') > 1" by code_simp
  from ListImages_before_since[OF valid2, where mgr = ex_mgr and w = ex_world] two
  have B: "\<exists>err. ListImages ex_mgr store_deps ex_world ?g = Inl err \<and> IsInvalidParam err"
    by blast
  let ?cc = "\<lparr>ci_ID = ''sha256:cc'', ci_Size = 300, ci_OCISpec = ex_oci 30\<rparr>"
  have chk: "CheckReference ex_mgr store_deps ex_world ''sha256:cc''
               = Inr (''sha256:cc'', Reference ''sha256'' (Some ''cc'') None, repo_t1)
             \<and> GetCtrdImageInfo store_deps ex_world ''sha256:cc'' = Inr ?cc
             \<and> time_Parse store_deps (time_Format store_deps (oci_Created (ci_OCISpec ?cc)))
                 = Inr (oci_Created (ci_OCISpec ?cc))"
    by code_simp
  have c30: "oci_Created (ci_OCISpec ?cc) = 30" by code_simp
  from ListImages_before_since[OF valid, where mgr = ex_mgr and w = ex_world
      and b = "''sha256:cc''" and imgid = "''sha256:cc''" and img = ?cc
      and actualRef = "Reference ''sha256'' (Some ''cc'') None" and primaryRef = repo_t1] chk
  have "filter_time ex_mgr store_deps ex_world [''sha256:cc'']
          = Inr (Some (oci_Created (ci_OCISpec ?cc)))"
    by blast
  then have C: "filter_time ex_mgr store_deps ex_world [''sha256:cc''] = Inr (Some 30)"
    unfolding c30 .
  have gi: "GetImage ex_mgr store_deps ex_world ''ubuntu:latest''
              = Inr (projr (GetImage ex_mgr store_deps ex_world ''ubuntu:latest''))
            \<and> time_Parse store_deps
                 (ii_CreatedAt (projr (GetImage ex_mgr store_deps ex_world ''ubuntu:latest'')))
                = Inr 10"
    by code_simp
  from ListImages_before_since[OF valid, where mgr = ex_mgr and w = ex_world
      and b = "''ubuntu:latest''" and t = 10
      and imgFilter = "projr (GetImage ex_mgr store_deps ex_world ''ubuntu:latest'')"] gi
  have D: "filter_time ex_mgr store_deps ex_world [''ubuntu:latest''] = Inr (Some 10)"
    by blast
  from A B C D show ?thesis by blast
qed

text \<open>
  C9. With one or more \<open>reference\<close> patterns, none of whose matches is an error, an
  entry of the window is kept if and only if at least one of its tag-form or
  digest-form names matches at least one pattern, and the tag and digest lists of a
  kept entry are replaced by their names that match some pattern; an entry neither of
  whose lists keeps a name is dropped.
\<close>

theorem ListImages_reference:
  assumes valid: "filter_Validate d f acceptedImageFilterTags = None"
    and lb: "length (filter_Get d f ''before'') \<le> 1"
    and ls: "length (filter_Get d f ''since'') \<le> 1"
    and bt: "filter_time mgr d w (filter_Get d f ''before'') = Inr bt"
    and st: "filter_time mgr d w (filter_Get d f ''since'') = Inr st"
    and ne: "filter_Get d f ''reference'' \<noteq> []"
    and total: "\<forall>imgInfo \<in> set (converted d w (filter (in_window bt st) (ListCtrdImageInfo d w))).
                  match_total d (filter_Get d f ''reference'')
                    (ii_RepoTags imgInfo @ ii_RepoDigests imgInfo)"
  shows "ListImages mgr d w f =
           Inr (map (narrow_entry d (filter_Get d f ''reference''))
                  (filter (entry_matches d (filter_Get d f ''reference''))
                     (converted d w (filter (in_window bt st) (ListCtrdImageInfo d w)))))"
  using ListImages_unfold[OF valid lb ls bt st] list_loop_reference[OF ne total, of "[]"]
  by simp

text \<open>
  In the example world the pattern \<open>*:latest\<close> keeps the image with the two
  \<open>latest\<close> tags, without its digest name, and drops the other two images.
\<close>

theorem ListImages_reference_witness:
  "ListImages ex_mgr store_deps ex_world [(''reference'', [''*:latest''])]
   = Inr [\<lparr>ii_Architecture = ''amd64'', ii_Config = [], ii_CreatedAt = ''10'',
           ii_ID = ''sha256:aa'', ii_Os = ''linux'', ii_RepoDigests = [],
           ii_RepoTags = [''reg.example/library/ubuntu:latest'', ''localhost:5000/ubuntu:latest''],
           ii_RootFSType = ''layers'', ii_RootFSLayers = [''sha256:d0'', ''sha256:d1''],
           ii_Size = 300\<rparr>]"
proof -
  let ?f = "[(''reference'', [''*:latest''])]"
  have valid: "filter_Validate store_deps ?f acceptedImageFilterTags = None" by code_simp
  have lb: "length (filter_Get store_deps ?f ''before'') \<le> 1" by code_simp
  have ls: "length (filter_Get store_deps ?f ''since'') \<le> 1" by code_simp
  have bt: "filter_time ex_mgr store_deps ex_world (filter_Get store_deps ?f ''before'')
              = Inr None"
    by code_simp
  have st: "filter_time ex_mgr store_deps ex_world (filter_Get store_deps ?f ''since'')
              = Inr None"
    by code_simp
  have ne: "filter_Get store_deps ?f ''reference'' \<noteq> []" by code_simp
  have total: "\<forall>imgInfo \<in> set (converted store_deps ex_world
                   (filter (in_window None None) (ListCtrdImageInfo store_deps ex_world))).
                  match_total store_deps (filter_Get store_deps ?f ''reference'')
                    (ii_RepoTags imgInfo @ ii_RepoDigests imgInfo)"
    by code_simp
  have "ListImages ex_mgr store_deps ex_world ?f =
           Inr (map (narrow_entry store_deps (filter_Get store_deps ?f ''reference''))
                  (filter (entry_matches store_deps (filter_Get store_deps ?f ''reference''))
                     (converted store_deps ex_world
                        (filter (in_window None None) (ListCtrdImageInfo store_deps ex_world)))))"
    by (rule ListImages_reference[OF valid lb ls bt st ne total])
  also have "\<dots> = Inr [\<lparr>ii_Architecture = ''amd64'', ii_Config = [], ii_CreatedAt = ''10'',
           ii_ID = ''sha256:aa'', ii_Os = ''linux'', ii_RepoDigests = [],
           ii_RepoTags = [''reg.example/library/ubuntu:latest'', ''localhost:5000/ubuntu:latest''],
           ii_RootFSType = ''layers'', ii_RootFSLayers = [''sha256:d0'', ''sha256:d1''],
           ii_Size = 300\<rparr>]"
    by code_simp
  finally show ?thesis .
qed

end
